theory Spec2Isabelle
  imports Main
begin

section \<open>Python values, exceptions and string formatting\<close>

text \<open>
  An exception is modelled by the name of its class and by whether that class derives from
  \<^verbatim>\<open>Exception\<close> (\<open>Exc\<close>: IndexError, ValueError, OSError, ...) or only from
  \<^verbatim>\<open>BaseException\<close> (\<open>BaseExc\<close>: KeyboardInterrupt, SystemExit). The handler
  \<^verbatim>\<open>except Exception:\<close> of the notebook catches the first kind only.
\<close>

datatype exn = Exc string | BaseExc string

datatype pyval = PyInt int | PyStr string

fun str_nat :: "nat \<Rightarrow> string" where
  "str_nat n =
     (if n < 10 then [''0123456789'' ! n]
      else str_nat (n div 10) @ [''0123456789'' ! (n mod 10)])"

declare str_nat.simps [simp del]

text \<open>Python's \<^verbatim>\<open>str(v)\<close>, which the conversion \<^verbatim>\<open>%s\<close> applies to its argument.\<close>

fun py_str :: "pyval \<Rightarrow> string" where
  "py_str (PyStr s) = s"
| "py_str (PyInt i) = (if i < 0 then CHR ''-'' # str_nat (nat (- i)) else str_nat (nat i))"

text \<open>
  The operator \<^verbatim>\<open>template % (a, b, ...)\<close>: one pass from left to right, in which
  \<^verbatim>\<open>%s\<close> takes the next argument and inserts \<^verbatim>\<open>str\<close> of it (what is inserted is
  never scanned again) and \<^verbatim>\<open>%%\<close> gives a percent sign. Too few or too many
  arguments raise TypeError, a percent sign at the end ValueError. The templates of the
  notebook hold no other conversion; the model refuses any other with ValueError.
\<close>

fun py_format :: "string \<Rightarrow> pyval list \<Rightarrow> exn + string" where
  "py_format [] [] = Inr []"
| "py_format [] (a # as) = Inl (Exc ''TypeError'')"
| "py_format [c] as =
     (if c = CHR ''%'' then Inl (Exc ''ValueError'')
      else map_sum id ((#) c) (py_format [] as))"
| "py_format (c # d # cs) as =
     (if c \<noteq> CHR ''%'' then map_sum id ((#) c) (py_format (d # cs) as)
      else if d = CHR ''%'' then map_sum id ((#) CHR ''%'') (py_format cs as)
      else if d = CHR ''s'' then
        (case as of
           [] \<Rightarrow> Inl (Exc ''TypeError'')
         | a # as' \<Rightarrow> map_sum id ((@) (py_str a)) (py_format cs as'))
      else Inl (Exc ''ValueError''))"

section \<open>Arrays\<close>

text \<open>
  A numpy array held in memory: its shape and its elements in row-major order. The element
  type is a parameter: no property below depends on pixel values.
\<close>

datatype 'a ndarray = NdArray (shape: "nat list") (elems: "'a list")


text \<open>
  A dask array: a task graph, no data. It knows the store it reads, the integer indices
  selected so far and the shape of what it will yield once computed.
\<close>

datatype darray = DaskArray (d_url: string) (d_index: "nat list") (d_shape: "nat list")

datatype 'a pyarr = Eager "'a ndarray" | Lazy darray

fun is_lazy :: "'a pyarr \<Rightarrow> bool" where
  "is_lazy (Lazy d) = True"
| "is_lazy (Eager a) = False"

fun py_shape :: "'a pyarr \<Rightarrow> nat list" where
  "py_shape (Eager a) = shape a"
| "py_shape (Lazy d) = d_shape d"

text \<open>Python's index normalisation on an axis of length \<open>n\<close>: negative indices count from the end.\<close>

definition norm_index :: "nat \<Rightarrow> int \<Rightarrow> exn + nat" where
  "norm_index n i =
     (let j = (if i < 0 then i + int n else i)
      in if 0 \<le> j \<and> j < int n then Inr (nat j) else Inl (Exc ''IndexError''))"

text \<open>\<^verbatim>\<open>a[i]\<close>: the \<open>i\<close>-th sub-array along the first axis.\<close>

fun nd_index :: "'a ndarray \<Rightarrow> int \<Rightarrow> exn + 'a ndarray" where
  "nd_index (NdArray [] es) i = Inl (Exc ''IndexError'')"
| "nd_index (NdArray (n # s) es) i =
     (case norm_index n i of
        Inl e \<Rightarrow> Inl e
      | Inr j \<Rightarrow> Inr (NdArray s (take (prod_list s) (drop (j * prod_list s) es))))"

text \<open>
  \<^verbatim>\<open>a[i1, ..., ik, :, ..., :]\<close> with \<open>m\<close> full slices: more indices than axes is an
  IndexError, as an index out of range is.
\<close>

fun nd_getitem :: "'a ndarray \<Rightarrow> int list \<Rightarrow> nat \<Rightarrow> exn + 'a ndarray" where
  "nd_getitem a [] m = (if m \<le> length (shape a) then Inr a else Inl (Exc ''IndexError''))"
| "nd_getitem a (i # is) m =
     (case nd_index a i of Inl e \<Rightarrow> Inl e | Inr b \<Rightarrow> nd_getitem b is m)"

fun da_index :: "darray \<Rightarrow> int \<Rightarrow> exn + darray" where
  "da_index (DaskArray u ix []) i = Inl (Exc ''IndexError'')"
| "da_index (DaskArray u ix (n # s)) i =
     (case norm_index n i of
        Inl e \<Rightarrow> Inl e
      | Inr j \<Rightarrow> Inr (DaskArray u (ix @ [j]) s))"

fun da_getitem :: "darray \<Rightarrow> int list \<Rightarrow> nat \<Rightarrow> exn + darray" where
  "da_getitem d [] m = (if m \<le> length (d_shape d) then Inr d else Inl (Exc ''IndexError''))"
| "da_getitem d (i # is) m =
     (case da_index d i of Inl e \<Rightarrow> Inl e | Inr d' \<Rightarrow> da_getitem d' is m)"

fun py_getitem :: "'a pyarr \<Rightarrow> int list \<Rightarrow> nat \<Rightarrow> exn + 'a pyarr" where
  "py_getitem (Eager a) is m = map_sum id Eager (nd_getitem a is m)"
| "py_getitem (Lazy d) is m = map_sum id Lazy (da_getitem d is m)"

text \<open>\<^verbatim>\<open>shape[k]\<close> on the shape tuple.\<close>

definition shape_at :: "nat list \<Rightarrow> nat \<Rightarrow> exn + nat" where
  "shape_at s k = (if k < length s then Inr (s ! k) else Inl (Exc ''IndexError''))"

text \<open>\<^verbatim>\<open>for im in img\<close>: the sub-arrays along the first axis, in order.\<close>

fun nd_iter :: "'a ndarray \<Rightarrow> exn + 'a ndarray list" where
  "nd_iter (NdArray [] es) = Inl (Exc ''TypeError'')"
| "nd_iter (NdArray (n # s) es) =
     Inr (map (\<lambda>j. NdArray s (take (prod_list s) (drop (j * prod_list s) es))) [0..<n])"

text \<open>
  \<^verbatim>\<open>numpy.array(results)\<close> on a list of arrays: the empty list gives the array of shape
  \<open>(0,)\<close>, arrays of one shape are stacked along a new first axis. Arrays of different
  shapes are refused with ValueError (numpy 1.24 and later; older versions built an array
  of objects instead, which is not an array of planes).
\<close>

fun np_array :: "'a ndarray list \<Rightarrow> exn + 'a ndarray" where
  "np_array [] = Inr (NdArray [0] [])"
| "np_array (r # rs) =
     (if list_all (\<lambda>x. shape x = shape r) rs
      then Inr (NdArray (Suc (length rs) # shape r) (concat (map elems (r # rs))))
      else Inl (Exc ''ValueError''))"

section \<open>Effects: the calls into the libraries\<close>

text \<open>
  What the notebook does to the world is recorded as a trace of events: a store opened
  (\<^verbatim>\<open>da.from_zarr\<close>) or read under an index (a dask array computed), the progress bar
  registered and removed, the model looked up, the normalisation and the model called on
  an array, the calls to matplotlib, a value printed, and the slider (value, minimum,
  maximum, step) handed with the callback to \<^verbatim>\<open>interact\<close>.
\<close>

datatype printed = PShape "nat list" | PInt int

datatype 'a event =
    ZarrOpen string
  | ZarrRead string "nat list"
  | PBarEnter
  | PBarExit
  | FromPretrained string
  | Normalize "'a ndarray"
  | PredictInstances "'a ndarray"
  | NewFigure
  | Subplot nat
  | Imshow "'a ndarray" string
  | TightLayout
  | FlushEvents
  | Print printed
  | Interact int int int int

text \<open>
  A computation takes the trace of the calls made so far and returns a value or an
  exception, and the extended trace: what was done before an exception stays done.
\<close>

type_synonym ('a, 'r) py = "'a event list \<Rightarrow> (exn + 'r) \<times> 'a event list"

definition py_return :: "'r \<Rightarrow> ('a, 'r) py" where
  "py_return x = (\<lambda>w. (Inr x, w))"

definition py_raise :: "exn \<Rightarrow> ('a, 'r) py" where
  "py_raise e = (\<lambda>w. (Inl e, w))"

definition py_bind :: "('a, 'r) py \<Rightarrow> ('r \<Rightarrow> ('a, 's) py) \<Rightarrow> ('a, 's) py" where
  "py_bind m f = (\<lambda>w. case m w of (Inl e, w') \<Rightarrow> (Inl e, w') | (Inr x, w') \<Rightarrow> f x w')"

definition py_lift :: "exn + 'r \<Rightarrow> ('a, 'r) py" where
  "py_lift r = (\<lambda>w. (r, w))"

definition emit :: "'a event \<Rightarrow> ('a, unit) py" where
  "emit ev = (\<lambda>w. (Inr (), w @ [ev]))"

text \<open>A library call: recorded, then its outcome.\<close>

definition call :: "'a event \<Rightarrow> exn + 'r \<Rightarrow> ('a, 'r) py" where
  "call ev r = py_bind (emit ev) (\<lambda>_. py_lift r)"

text \<open>\<^verbatim>\<open>try: body  except Exception: handler\<close>.\<close>

definition try_except_Exception :: "('a, 'r) py \<Rightarrow> ('a, 'r) py \<Rightarrow> ('a, 'r) py" where
  "try_except_Exception body handler =
     (\<lambda>w. case body w of
             (Inl (Exc n), w') \<Rightarrow> handler w'
           | (Inl (BaseExc n), w') \<Rightarrow> (Inl (BaseExc n), w')
           | (Inr x, w') \<Rightarrow> (Inr x, w'))"

text \<open>
  \<^verbatim>\<open>with ProgressBar(): body\<close>: the bar is registered, the body runs, the bar is
  removed on the way out whether the body returned or raised, and an exception goes on.
\<close>

definition with_ProgressBar :: "('a, 'r) py \<Rightarrow> ('a, 'r) py" where
  "with_ProgressBar body =
     py_bind (emit PBarEnter) (\<lambda>_. (\<lambda>w. case body w of (r, w') \<Rightarrow> (r, w' @ [PBarExit])))"

definition py_print :: "printed \<Rightarrow> ('a, unit) py" where
  "py_print v = emit (Print v)"

type_synonym details = "(int \<times> int) list"

text \<open>A loaded StarDist model is what its method \<^verbatim>\<open>predict_instances\<close> computes.\<close>

type_synonym 'a model = "'a ndarray \<Rightarrow> exn + ('a ndarray \<times> details)"

text \<open>
  The third-party libraries and the remote store are parameters: what opening a store
  yields (the shape in its metadata), what reading the chunks under an index yields, what
  the model registry and the normalisation do: each a function of its arguments.
  \<^verbatim>\<open>pyplot\<close> is a state machine (a current figure, current axes), so whether one of
  its calls raises depends on all that was done before it: \<open>plot_raises\<close> takes the
  trace. \<open>callback_error\<close> is what ipywidgets does with an exception that leaves the
  callback it was given: \<open>None\<close> when it shows the traceback in the output area and
  carries on, \<open>Some e\<close> when \<^verbatim>\<open>interact\<close> raises \<open>e\<close>.
\<close>

record 'a libs =
  zarr_open :: "string \<Rightarrow> exn + nat list"
  zarr_read :: "string \<Rightarrow> nat list \<Rightarrow> exn + 'a ndarray"
  from_pretrained :: "string \<Rightarrow> exn + 'a model"
  normalize :: "'a ndarray \<Rightarrow> exn + 'a ndarray"
  plot_raises :: "'a event list \<Rightarrow> 'a event \<Rightarrow> exn option"
  callback_error :: "exn \<Rightarrow> exn option"

text \<open>\<^verbatim>\<open>da.from_zarr(url)\<close>: opens the store and builds the graph; no chunk is read.\<close>

definition da_from_zarr :: "'a libs \<Rightarrow> string \<Rightarrow> ('a, 'a pyarr) py" where
  "da_from_zarr L url =
     py_bind (call (ZarrOpen url) (zarr_open L url))
       (\<lambda>shp. py_return (Lazy (DaskArray url [] shp)))"

text \<open>
  \<^verbatim>\<open>numpy.asarray(x)\<close>: an array in memory is returned as it is, a dask array is
  computed, which reads its chunks from the store.
\<close>

fun np_asarray :: "'a libs \<Rightarrow> 'a pyarr \<Rightarrow> ('a, 'a ndarray) py" where
  "np_asarray L (Eager a) = py_return a"
| "np_asarray L (Lazy d) = call (ZarrRead (d_url d) (d_index d)) (zarr_read L (d_url d) (d_index d))"

text \<open>A call to matplotlib: recorded, and it returns or raises as the state so far decides.\<close>

definition plt_call :: "'a libs \<Rightarrow> 'a event \<Rightarrow> ('a, unit) py" where
  "plt_call L ev =
     (\<lambda>w. case plot_raises L w ev of
             None \<Rightarrow> (Inr (), w @ [ev])
           | Some e \<Rightarrow> (Inl e, w @ [ev]))"

text \<open>\<^verbatim>\<open>plt.imshow(x, cmap=c)\<close>: matplotlib converts its argument to a numpy array, then draws.\<close>

definition plt_imshow :: "'a libs \<Rightarrow> 'a pyarr \<Rightarrow> string \<Rightarrow> ('a, unit) py" where
  "plt_imshow L x c = py_bind (np_asarray L x) (\<lambda>a. plt_call L (Imshow a c))"

section \<open>The notebook\<close>

text \<open>
  The two helpers. Both set \<^verbatim>\<open>endpoint_url = 'https://s3.embassy.ebi.ac.uk/'\<close> and
  format \<open>root\<close>; the first returns
  \<^verbatim>\<open>numpy.asarray(da.from_zarr(endpoint_url + root))\<close> from inside
  \<^verbatim>\<open>with ProgressBar():\<close>, the second returns \<^verbatim>\<open>da.from_zarr(endpoint_url + root)\<close>.
  The parameter \<^verbatim>\<open>id\<close> is written \<open>ident\<close>.
\<close>

definition endpoint_url :: string where
  "endpoint_url = ''https://s3.embassy.ebi.ac.uk/''"

definition load_binary_from_s3 :: "'a libs \<Rightarrow> pyval \<Rightarrow> pyval \<Rightarrow> ('a, 'a pyarr) py" where
  "load_binary_from_s3 L ident resolution =
     py_bind (py_lift (py_format ''idr/zarr/v0.1/%s.zarr/%s/'' [ident, resolution])) (\<lambda>root.
       with_ProgressBar
         (py_bind (da_from_zarr L (endpoint_url @ root)) (\<lambda>d.
          py_bind (np_asarray L d) (\<lambda>a. py_return (Eager a)))))"

definition load_labels_from_s3 :: "'a libs \<Rightarrow> pyval \<Rightarrow> pyval \<Rightarrow> ('a, 'a pyarr) py" where
  "load_labels_from_s3 L ident resolution =
     py_bind (py_lift (py_format ''idr/zarr/v0.1/%s.zarr/labels/%s/'' [ident, resolution])) (\<lambda>root.
       da_from_zarr L (endpoint_url @ root))"

text \<open>The cell \<^verbatim>\<open>data = load_binary_from_s3(image_id); print(data.shape)\<close>.\<close>

definition load_data_cell :: "'a libs \<Rightarrow> pyval \<Rightarrow> ('a, 'a pyarr) py" where
  "load_data_cell L iid =
     py_bind (load_binary_from_s3 L iid (PyStr ''0'')) (\<lambda>d.
     py_bind (py_print (PShape (py_shape d))) (\<lambda>_. py_return d))"

text \<open>The cell \<^verbatim>\<open>labels = load_labels_from_s3(image_id); print(labels.shape)\<close>.\<close>

definition load_labels_cell :: "'a libs \<Rightarrow> pyval \<Rightarrow> ('a, 'a pyarr) py" where
  "load_labels_cell L iid =
     py_bind (load_labels_from_s3 L iid (PyStr ''0'')) (\<lambda>lb.
     py_bind (py_print (PShape (py_shape lb))) (\<lambda>_. py_return lb))"

text \<open>The cell \<^verbatim>\<open>model_versatile = StarDist2D.from_pretrained('2D_demo')\<close>.\<close>

definition load_model_cell :: "'a libs \<Rightarrow> ('a, 'a model) py" where
  "load_model_cell L = call (FromPretrained ''2D_demo'') (from_pretrained L ''2D_demo'')"

text \<open>
  The loop \<^verbatim>\<open>for im in img: new_labels, details = model.predict_instances(im);
  results.append(new_labels)\<close>.
\<close>

fun predict_loop :: "'a model \<Rightarrow> 'a ndarray list \<Rightarrow> 'a ndarray list \<Rightarrow> ('a, 'a ndarray list) py" where
  "predict_loop m [] results = py_return results"
| "predict_loop m (im # ims) results =
     py_bind (call (PredictInstances im) (m im))
       (\<lambda>(new_labels, details). predict_loop m ims (results @ [new_labels]))"

text \<open>
  The prediction cell: \<^verbatim>\<open>img = normalize(data[0, 0, :, :, :], 1, 99.8, axis=axis_norm)\<close>,
  the loop, and \<^verbatim>\<open>label_slices = numpy.array(results)\<close>. It returns \<open>img\<close>,
  \<open>results\<close> and \<open>label_slices\<close>. The normalisation works on an array in memory, which
  \<open>data\<close> is; were it handed a dask array, that array would be computed first.
\<close>

definition predict_cell ::
  "'a libs \<Rightarrow> 'a model \<Rightarrow> 'a pyarr \<Rightarrow> ('a, 'a ndarray \<times> 'a ndarray list \<times> 'a ndarray) py" where
  "predict_cell L m d =
     py_bind (py_lift (py_getitem d [0, 0] 3)) (\<lambda>sub.
     py_bind (np_asarray L sub) (\<lambda>a.
     py_bind (call (Normalize a) (normalize L a)) (\<lambda>im.
     py_bind (py_lift (nd_iter im)) (\<lambda>planes.
     py_bind (predict_loop m planes []) (\<lambda>rs.
     py_bind (py_lift (np_array rs)) (\<lambda>ls.
     py_return (im, rs, ls)))))))"

text \<open>The variables of the notebook that the callback reads, once the cells above have run.\<close>

record 'a globals =
  image_id :: pyval
  data :: "'a pyarr"
  labels :: "'a pyarr"
  model_versatile :: "'a model"
  img :: "'a ndarray"
  results :: "'a ndarray list"
  label_slices :: "'a ndarray"

text \<open>
  The statement that the callback guards:
  \<^verbatim>\<open>plt.imshow(labels[0, 0, z, :, :], cmap='jet', alpha=0.5)\<close>.
\<close>

definition overlay_labels :: "'a libs \<Rightarrow> 'a globals \<Rightarrow> int \<Rightarrow> ('a, unit) py" where
  "overlay_labels L g z =
     py_bind (py_lift (py_getitem (labels g) [0, 0, z] 2)) (\<lambda>q. plt_imshow L q ''jet'')"

text \<open>The callback \<^verbatim>\<open>update(z)\<close>.\<close>

definition update :: "'a libs \<Rightarrow> 'a globals \<Rightarrow> int \<Rightarrow> ('a, unit) py" where
  "update L g z =
     py_bind (plt_call L NewFigure) (\<lambda>fig.
     py_bind (plt_call L (Subplot 121)) (\<lambda>_.
     py_bind (py_lift (py_getitem (data g) [0, 0, z] 2)) (\<lambda>p.
     py_bind (plt_imshow L p ''gray'') (\<lambda>_.
     py_bind (try_except_Exception (overlay_labels L g z) (py_print (PInt z))) (\<lambda>_.
     py_bind (plt_call L (Subplot 122)) (\<lambda>_.
     py_bind (py_lift (py_getitem (data g) [0, 0, z] 2)) (\<lambda>p.
     py_bind (plt_imshow L p ''gray'') (\<lambda>_.
     py_bind (py_lift (nd_getitem (label_slices g) [z] 2)) (\<lambda>q.
     py_bind (plt_call L (Imshow q ''jet'')) (\<lambda>_.
     py_bind (plt_call L TightLayout) (\<lambda>_.
     plt_call L FlushEvents)))))))))))"

text \<open>
  \<^verbatim>\<open>widgets.IntSlider(value, min, max, step)\<close>: ipywidgets refuses a maximum below the
  minimum with TraitError and keeps the value between the two. The values the slider can
  take are those from \<open>min\<close> to \<open>max\<close> in steps of \<open>step\<close>.
\<close>

record slider =
  s_value :: int
  s_min :: int
  s_max :: int
  s_step :: int

definition IntSlider :: "int \<Rightarrow> int \<Rightarrow> int \<Rightarrow> int \<Rightarrow> exn + slider" where
  "IntSlider v lo hi st =
     (if hi < lo then Inl (Exc ''TraitError'')
      else Inr \<lparr>s_value = max lo (min hi v), s_min = lo, s_max = hi, s_step = st\<rparr>)"

definition slider_value :: "slider \<Rightarrow> int \<Rightarrow> bool" where
  "slider_value s z = (s_min s \<le> z \<and> z \<le> s_max s \<and> (z - s_min s) mod s_step s = 0)"

text \<open>
  \<^verbatim>\<open>interact(f, z=slider)\<close>: ipywidgets takes the callback and the slider (recorded as
  one event), and calls the callback with the value of the slider before it returns, to
  draw the widget for the first time. An exception that leaves the callback is the
  library's to deal with. Later, ipywidgets calls the callback again at every move of
  the slider, with the value the slider then has.
\<close>

definition interact :: "'a libs \<Rightarrow> (int \<Rightarrow> ('a, unit) py) \<Rightarrow> slider \<Rightarrow> ('a, unit) py" where
  "interact L f s =
     py_bind (emit (Interact (s_value s) (s_min s) (s_max s) (s_step s))) (\<lambda>_.
       (\<lambda>w. case f (s_value s) w of
               (Inr u, w') \<Rightarrow> (Inr (), w')
             | (Inl e, w') \<Rightarrow>
                 (case callback_error L e of
                    None \<Rightarrow> (Inr (), w')
                  | Some e' \<Rightarrow> (Inl e', w'))))"

text \<open>
  The last cell, after the definition of \<open>update\<close>:
  \<^verbatim>\<open>interact(update, z=widgets.IntSlider(value=0, min=0, max=data.shape[2]-1, step=1,
  ...))\<close>. The callback reads the variables of the notebook.
\<close>

definition compare_cell :: "'a libs \<Rightarrow> 'a globals \<Rightarrow> ('a, slider) py" where
  "compare_cell L g =
     py_bind (py_lift (shape_at (py_shape (data g)) 2)) (\<lambda>n.
     py_bind (py_lift (IntSlider 0 0 (int n - 1) 1)) (\<lambda>s.
     py_bind (interact L (update L g) s) (\<lambda>_.
     py_return s)))"

text \<open>The cells in the order of the notebook, from \<^verbatim>\<open>image_id = 6001247\<close> on.\<close>

definition run_notebook :: "'a libs \<Rightarrow> ('a, 'a globals \<times> slider) py" where
  "run_notebook L =
     py_bind (py_return (PyInt 6001247)) (\<lambda>iid.
     py_bind (load_data_cell L iid) (\<lambda>d.
     py_bind (load_labels_cell L iid) (\<lambda>lb.
     py_bind (load_model_cell L) (\<lambda>m.
     py_bind (predict_cell L m d) (\<lambda>(im, rs, ls).
     py_bind (compare_cell L
                \<lparr>image_id = iid, data = d, labels = lb, model_versatile = m,
                  img = im, results = rs, label_slices = ls\<rparr>) (\<lambda>s.
     py_return
       (\<lparr>image_id = iid, data = d, labels = lb, model_versatile = m,
         img = im, results = rs, label_slices = ls\<rparr>, s)))))))"

section \<open>A small world to run the notebook in\<close>

text \<open>
  A store whose image has two planes of one row and two columns, with labels on the first
  plane only (reading the labels of the second plane raises KeyError), a normalisation
  that changes nothing, a model that labels each pixel by its parity, a matplotlib that
  never fails and a widget library that shows the traceback of a failed callback.
\<close>

definition demo_model :: "nat model" where
  "demo_model p = Inr (NdArray (shape p) (map (\<lambda>x. x mod 2) (elems p)), [])"

definition demo_libs :: "nat libs" where
  "demo_libs =
     \<lparr>zarr_open = (\<lambda>u. Inr [1, 1, 2, 1, 2]),
      zarr_read = (\<lambda>u ix. if ix = [] then Inr (NdArray [1, 1, 2, 1, 2] [5, 6, 7, 8])
                           else if ix = [0, 0, 0] then Inr (NdArray [1, 2] [0, 1])
                           else Inl (Exc ''KeyError'')),
      from_pretrained = (\<lambda>n. Inr demo_model),
      normalize = Inr,
      plot_raises = (\<lambda>w ev. None),
      callback_error = (\<lambda>e. None)\<rparr>"

text \<open>The variables of the notebook after its cells have run in this world.\<close>

definition demo_globals :: "nat globals" where
  "demo_globals =
     \<lparr>image_id = PyInt 6001247,
      data = Eager (NdArray [1, 1, 2, 1, 2] [5, 6, 7, 8]),
      labels = Lazy (DaskArray ''https://s3.embassy.ebi.ac.uk/idr/zarr/v0.1/6001247.zarr/labels/0/''
                 [] [1, 1, 2, 1, 2]),
      model_versatile = demo_model,
      img = NdArray [2, 1, 2] [5, 6, 7, 8],
      results = [NdArray [1, 2] [1, 0], NdArray [1, 2] [1, 0]],
      label_slices = NdArray [2, 1, 2] [1, 0, 1, 0]\<rparr>"

text \<open>
  The same world, but for the call to matplotlib that is made when \<open>k\<close> events have been
  recorded: that call raises \<open>e\<close>.
\<close>

definition plot_fails_at :: "nat \<Rightarrow> exn \<Rightarrow> nat libs" where
  "plot_fails_at k e =
     demo_libs\<lparr>plot_raises := (\<lambda>w ev. if length w = k then Some e else None)\<rparr>"

section \<open>What the libraries document\<close>

text \<open>
  \<^verbatim>\<open>csbdeep.utils.normalize\<close> rescales every element and returns an array of the shape
  of its input; \<^verbatim>\<open>predict_instances\<close> returns a label image of the shape of the image
  it is given. The notebook checks neither; where a property needs them they are
  hypotheses.
\<close>

definition normalize_keeps_shape :: "'a libs \<Rightarrow> bool" where
  "normalize_keeps_shape L = (\<forall>a b. normalize L a = Inr b \<longrightarrow> shape b = shape a)"

definition model_keeps_shape :: "'a libs \<Rightarrow> bool" where
  "model_keeps_shape L =
     (\<forall>m p r dt. from_pretrained L ''2D_demo'' = Inr m \<longrightarrow> m p = Inr (r, dt) \<longrightarrow> shape r = shape p)"

section \<open>What the store holds\<close>



section \<open>Sequences of calls to matplotlib that return\<close>

text \<open>
  \<open>plots_ok L w evs\<close>: made one after the other from the trace \<open>w\<close>, the calls \<open>evs\<close>
  to matplotlib all return.
\<close>

fun plots_ok :: "'a libs \<Rightarrow> 'a event list \<Rightarrow> 'a event list \<Rightarrow> bool" where
  "plots_ok L w [] = True"
| "plots_ok L w (ev # evs) = (plot_raises L w ev = None \<and> plots_ok L (w @ [ev]) evs)"

section \<open>Properties\<close>

subsection \<open>Auxiliary facts\<close>

lemmas py_defs = py_bind_def py_return_def py_raise_def py_lift_def emit_def call_def
  with_ProgressBar_def py_print_def da_from_zarr_def plt_call_def plt_imshow_def

lemma map_sum_eq_Inr: "map_sum f g x = Inr y \<longleftrightarrow> (\<exists>v. x = Inr v \<and> y = g v)"
  by (cases x) auto

lemma map_sum_eq_Inl: "map_sum f g x = Inl e \<longleftrightarrow> (\<exists>v. x = Inl v \<and> e = f v)"
  by (cases x) auto

lemma str_image_id: "str_nat 6001247 = ''6001247''"
  by (simp add: str_nat.simps)

lemma load_binary_from_s3_eq:
  "load_binary_from_s3 L ident r w =
     (let url = ''https://s3.embassy.ebi.ac.uk/idr/zarr/v0.1/'' @ py_str ident @ ''.zarr/''
                  @ py_str r @ ''/''
      in case zarr_open L url of
           Inl e \<Rightarrow> (Inl e, w @ [PBarEnter, ZarrOpen url, PBarExit])
         | Inr shp \<Rightarrow> (map_sum id Eager (zarr_read L url []),
                       w @ [PBarEnter, ZarrOpen url, ZarrRead url [], PBarExit]))"
  by (simp add: load_binary_from_s3_def endpoint_url_def py_defs Let_def split: sum.splits)

lemma load_labels_from_s3_eq:
  "load_labels_from_s3 L ident r w =
     (let url = ''https://s3.embassy.ebi.ac.uk/idr/zarr/v0.1/'' @ py_str ident
                  @ ''.zarr/labels/'' @ py_str r @ ''/''
      in (map_sum id (\<lambda>shp. Lazy (DaskArray url [] shp)) (zarr_open L url),
          w @ [ZarrOpen url]))"
  by (simp add: load_labels_from_s3_def endpoint_url_def py_defs Let_def split: sum.splits)

lemma load_data_cell_Inr:
  assumes "load_data_cell L (PyInt 6001247) w = (Inr d, w1)"
  shows "\<exists>a shp. d = Eager a
           \<and> zarr_open L ''https://s3.embassy.ebi.ac.uk/idr/zarr/v0.1/6001247.zarr/0/'' = Inr shp
           \<and> zarr_read L ''https://s3.embassy.ebi.ac.uk/idr/zarr/v0.1/6001247.zarr/0/'' [] = Inr a
           \<and> w1 = w @ [PBarEnter, ZarrOpen ''https://s3.embassy.ebi.ac.uk/idr/zarr/v0.1/6001247.zarr/0/'',
                        ZarrRead ''https://s3.embassy.ebi.ac.uk/idr/zarr/v0.1/6001247.zarr/0/'' [],
                        PBarExit, Print (PShape (shape a))]"
  using assms
  by (auto simp: load_data_cell_def load_binary_from_s3_eq str_image_id py_bind_def py_print_def
        emit_def py_return_def Let_def map_sum_eq_Inr split: sum.splits)

lemma load_labels_cell_Inr:
  assumes "load_labels_cell L (PyInt 6001247) w = (Inr lb, w1)"
  shows "\<exists>shp. zarr_open L ''https://s3.embassy.ebi.ac.uk/idr/zarr/v0.1/6001247.zarr/labels/0/'' = Inr shp
           \<and> lb = Lazy (DaskArray ''https://s3.embassy.ebi.ac.uk/idr/zarr/v0.1/6001247.zarr/labels/0/'' [] shp)
           \<and> w1 = w @ [ZarrOpen ''https://s3.embassy.ebi.ac.uk/idr/zarr/v0.1/6001247.zarr/labels/0/'',
                        Print (PShape shp)]"
  using assms
  by (auto simp: load_labels_cell_def load_labels_from_s3_eq str_image_id py_bind_def py_print_def
        emit_def py_return_def Let_def map_sum_eq_Inr split: sum.splits)

lemma load_model_cell_Inr:
  assumes "load_model_cell L w = (Inr m, w1)"
  shows "from_pretrained L ''2D_demo'' = Inr m \<and> w1 = w @ [FromPretrained ''2D_demo'']"
  using assms by (auto simp: load_model_cell_def py_defs split: sum.splits)

lemma predict_loop_Inr:
  "predict_loop m planes acc w = (Inr rs, w') \<Longrightarrow>
     \<exists>new. rs = acc @ new \<and> w' = w @ map PredictInstances planes
       \<and> list_all2 (\<lambda>p r. \<exists>dt. m p = Inr (r, dt)) planes new"
proof (induction planes arbitrary: acc w)
  case Nil
  then show ?case by (simp add: py_return_def)
next
  case (Cons im ims)
  from Cons.prems obtain l dt where m: "m im = Inr (l, dt)"
    and rest: "predict_loop m ims (acc @ [l]) (w @ [PredictInstances im]) = (Inr rs, w')"
    by (auto simp: py_defs split: sum.splits prod.splits)
  from Cons.IH [OF rest] obtain new where
    "rs = (acc @ [l]) @ new" "w' = (w @ [PredictInstances im]) @ map PredictInstances ims"
    "list_all2 (\<lambda>p r. \<exists>dt. m p = Inr (r, dt)) ims new"
    by blast
  with m show ?case by (intro exI [of _ "l # new"]) simp
qed


lemma predict_cell_Inr:
  assumes "predict_cell L m d w = (Inr (im, rs, ls), w')"
  shows "\<exists>sub a planes w1.
           py_getitem d [0, 0] 3 = Inr sub \<and> np_asarray L sub w = (Inr a, w1)
         \<and> normalize L a = Inr im \<and> nd_iter im = Inr planes
         \<and> list_all2 (\<lambda>p r. \<exists>dt. m p = Inr (r, dt)) planes rs
         \<and> np_array rs = Inr ls
         \<and> w' = w1 @ Normalize a # map PredictInstances planes"
proof -
  from assms obtain sub a w1 planes where
    s: "py_getitem d [0, 0] 3 = Inr sub" and a: "np_asarray L sub w = (Inr a, w1)"
    and n: "normalize L a = Inr im" and it: "nd_iter im = Inr planes"
    and lp: "predict_loop m planes [] (w1 @ [Normalize a]) = (Inr rs, w')"
    and st: "np_array rs = Inr ls"
    unfolding predict_cell_def py_bind_def py_lift_def call_def emit_def py_return_def
    by (auto split: sum.splits prod.splits)
  from predict_loop_Inr [OF lp] s a n it st show ?thesis by auto
qed

lemma interact_Inr:
  assumes "interact L f s w = (Inr u, w')"
  shows "w' = snd (f (s_value s) (w @ [Interact (s_value s) (s_min s) (s_max s) (s_step s)]))"
  using assms
  by (auto simp: interact_def py_bind_def emit_def split: sum.splits prod.splits option.splits)

lemma compare_cell_Inr:
  assumes "compare_cell L g w = (Inr s, w')"
  shows "\<exists>n. shape_at (py_shape (data g)) 2 = Inr n \<and> 1 \<le> n
           \<and> s = \<lparr>s_value = 0, s_min = 0, s_max = int n - 1, s_step = 1\<rparr>
           \<and> w' = snd (update L g 0 (w @ [Interact 0 0 (int n - 1) 1]))"
proof -
  from assms obtain n s0 u where
    n: "shape_at (py_shape (data g)) 2 = Inr n" and
    s0: "IntSlider 0 0 (int n - 1) 1 = Inr s0" and
    i: "interact L (update L g) s0 w = (Inr u, w')" and s: "s = s0"
    unfolding compare_cell_def py_bind_def py_lift_def py_return_def
    by (auto split: sum.splits prod.splits)
  from s0 have "1 \<le> n" "s0 = \<lparr>s_value = 0, s_min = 0, s_max = int n - 1, s_step = 1\<rparr>"
    by (auto simp: IntSlider_def split: if_splits)
  with n s interact_Inr [OF i] show ?thesis by auto
qed

lemma norm_index_Inr: "norm_index n i = Inr j \<Longrightarrow> j < n"
  by (auto simp: norm_index_def Let_def split: if_splits)

lemma norm_index_in_range: "0 \<le> i \<Longrightarrow> i < int n \<Longrightarrow> norm_index n i = Inr (nat i)"
  by (simp add: norm_index_def)

lemma nd_index_Inr:
  "nd_index a i = Inr b \<Longrightarrow> \<exists>n. shape a = n # shape b \<and> 0 < n"
  by (cases "(a, i)" rule: nd_index.cases) (auto split: sum.splits dest: norm_index_Inr)

lemma nd_index_in_range:
  "shape a = n # s \<Longrightarrow> 0 \<le> i \<Longrightarrow> i < int n \<Longrightarrow> \<exists>b. nd_index a i = Inr b \<and> shape b = s"
  by (cases a) (simp add: norm_index_in_range)

lemma nd_getitem_00_Inr:
  assumes "nd_getitem a [0, 0] 3 = Inr sub"
  shows "\<exists>n0 n1. shape a = n0 # n1 # shape sub \<and> 0 < n0 \<and> 0 < n1 \<and> 3 \<le> length (shape sub)"
  using assms by (auto split: sum.splits if_splits dest!: nd_index_Inr)

lemma nd_getitem_plane:
  assumes "shape a = n0 # n1 # n # s" "0 < n0" "0 < n1" "0 \<le> z" "z < int n" "2 \<le> length s"
  shows "\<exists>p. nd_getitem a [0, 0, z] 2 = Inr p \<and> shape p = s"
proof -
  from assms nd_index_in_range [of a n0 "n1 # n # s" 0]
  obtain b where b: "nd_index a 0 = Inr b" "shape b = n1 # n # s" by auto
  from assms nd_index_in_range [OF b(2), of 0]
  obtain c where c: "nd_index b 0 = Inr c" "shape c = n # s" by auto
  from assms nd_index_in_range [OF c(2), of z]
  obtain p where p: "nd_index c z = Inr p" "shape p = s" by auto
  from b c p assms show ?thesis by simp
qed

lemma nd_getitem_slice:
  assumes "shape a = n # s" "0 \<le> z" "z < int n" "2 \<le> length s"
  shows "\<exists>q. nd_getitem a [z] 2 = Inr q \<and> shape q = s"
proof -
  from assms nd_index_in_range [of a n s z]
  obtain p where p: "nd_index a z = Inr p" "shape p = s" by auto
  with assms show ?thesis by simp
qed

lemma nd_iter_Inr:
  assumes "nd_iter im = Inr planes"
  shows "\<exists>n s. shape im = n # s \<and> length planes = n \<and> (\<forall>p\<in>set planes. shape p = s)"
  using assms by (cases im rule: nd_iter.cases) auto

lemma np_array_shape:
  assumes "np_array rs = Inr ls" "\<forall>r\<in>set rs. shape r = s" "rs \<noteq> []"
  shows "shape ls = length rs # s"
  using assms by (cases rs) (auto split: if_splits)





lemma run_notebook_Inr:
  assumes "run_notebook L w = (Inr (g, s), w')"
  shows "\<exists>a shp lshp sub planes n.
       image_id g = PyInt 6001247 \<and> data g = Eager a
     \<and> zarr_open L ''https://s3.embassy.ebi.ac.uk/idr/zarr/v0.1/6001247.zarr/0/'' = Inr shp
     \<and> zarr_read L ''https://s3.embassy.ebi.ac.uk/idr/zarr/v0.1/6001247.zarr/0/'' [] = Inr a
     \<and> zarr_open L ''https://s3.embassy.ebi.ac.uk/idr/zarr/v0.1/6001247.zarr/labels/0/'' = Inr lshp
     \<and> labels g = Lazy (DaskArray ''https://s3.embassy.ebi.ac.uk/idr/zarr/v0.1/6001247.zarr/labels/0/'' [] lshp)
     \<and> from_pretrained L ''2D_demo'' = Inr (model_versatile g)
     \<and> nd_getitem a [0, 0] 3 = Inr sub \<and> normalize L sub = Inr (img g)
     \<and> nd_iter (img g) = Inr planes
     \<and> list_all2 (\<lambda>p r. \<exists>dt. model_versatile g p = Inr (r, dt)) planes (results g)
     \<and> np_array (results g) = Inr (label_slices g)
     \<and> shape_at (shape a) 2 = Inr n \<and> 1 \<le> n
     \<and> s = \<lparr>s_value = 0, s_min = 0, s_max = int n - 1, s_step = 1\<rparr>
     \<and> w' = snd (update L g 0 (w @ [PBarEnter,
                  ZarrOpen ''https://s3.embassy.ebi.ac.uk/idr/zarr/v0.1/6001247.zarr/0/'',
                  ZarrRead ''https://s3.embassy.ebi.ac.uk/idr/zarr/v0.1/6001247.zarr/0/'' [],
                  PBarExit, Print (PShape (shape a)),
                  ZarrOpen ''https://s3.embassy.ebi.ac.uk/idr/zarr/v0.1/6001247.zarr/labels/0/'',
                  Print (PShape lshp), FromPretrained ''2D_demo'', Normalize sub]
              @ map PredictInstances planes @ [Interact 0 0 (int n - 1) 1]))"
proof -
  from assms obtain d w1 lb w2 m w3 im rs ls w4 where
    c1: "load_data_cell L (PyInt 6001247) w = (Inr d, w1)" and
    c2: "load_labels_cell L (PyInt 6001247) w1 = (Inr lb, w2)" and
    c3: "load_model_cell L w2 = (Inr m, w3)" and
    c4: "predict_cell L m d w3 = (Inr (im, rs, ls), w4)" and
    c5: "compare_cell L g w4 = (Inr s, w')" and
    g: "g = \<lparr>image_id = PyInt 6001247, data = d, labels = lb, model_versatile = m,
              img = im, results = rs, label_slices = ls\<rparr>"
    unfolding run_notebook_def py_bind_def py_return_def
    by (auto split: sum.splits prod.splits)
  from load_data_cell_Inr [OF c1] obtain a shp where
    d: "d = Eager a"
       "zarr_open L ''https://s3.embassy.ebi.ac.uk/idr/zarr/v0.1/6001247.zarr/0/'' = Inr shp"
       "zarr_read L ''https://s3.embassy.ebi.ac.uk/idr/zarr/v0.1/6001247.zarr/0/'' [] = Inr a"
       "w1 = w @ [PBarEnter, ZarrOpen ''https://s3.embassy.ebi.ac.uk/idr/zarr/v0.1/6001247.zarr/0/'',
                  ZarrRead ''https://s3.embassy.ebi.ac.uk/idr/zarr/v0.1/6001247.zarr/0/'' [],
                  PBarExit, Print (PShape (shape a))]"
    by blast
  from load_labels_cell_Inr [OF c2] obtain lshp where
    l: "zarr_open L ''https://s3.embassy.ebi.ac.uk/idr/zarr/v0.1/6001247.zarr/labels/0/'' = Inr lshp"
       "lb = Lazy (DaskArray ''https://s3.embassy.ebi.ac.uk/idr/zarr/v0.1/6001247.zarr/labels/0/'' [] lshp)"
       "w2 = w1 @ [ZarrOpen ''https://s3.embassy.ebi.ac.uk/idr/zarr/v0.1/6001247.zarr/labels/0/'',
                   Print (PShape lshp)]"
    by blast
  from load_model_cell_Inr [OF c3] have
    m: "from_pretrained L ''2D_demo'' = Inr m" "w3 = w2 @ [FromPretrained ''2D_demo'']"
    by blast+
  from predict_cell_Inr [OF c4] obtain sub0 sub planes w3' where
    p: "py_getitem d [0, 0] 3 = Inr sub0" "np_asarray L sub0 w3 = (Inr sub, w3')"
       "normalize L sub = Inr im" "nd_iter im = Inr planes"
       "list_all2 (\<lambda>p r. \<exists>dt. m p = Inr (r, dt)) planes rs" "np_array rs = Inr ls"
       "w4 = w3' @ Normalize sub # map PredictInstances planes"
    by blast
  from p(1) d(1) obtain sub1 where s1: "nd_getitem a [0, 0] 3 = Inr sub1" "sub0 = Eager sub1"
    by (auto simp: map_sum_eq_Inr)
  with p(2) have s2: "sub1 = sub" "w3' = w3" by (auto simp: py_return_def)
  from compare_cell_Inr [OF c5] d(1) g obtain n where
    n: "shape_at (shape a) 2 = Inr n" "1 \<le> n"
       "s = \<lparr>s_value = 0, s_min = 0, s_max = int n - 1, s_step = 1\<rparr>"
       "w' = snd (update L g 0 (w4 @ [Interact 0 0 (int n - 1) 1]))"
    by auto
  show ?thesis
    apply (rule exI [of _ a], rule exI [of _ shp], rule exI [of _ lshp], rule exI [of _ sub],
           rule exI [of _ planes], rule exI [of _ n])
    using g d l m p s1 s2 n by simp
qed

lemma list_all2_set2: "list_all2 P xs ys \<Longrightarrow> y \<in> set ys \<Longrightarrow> \<exists>x\<in>set xs. P x y"
  by (induction rule: list_all2_induct) auto

lemma run_shapes:
  assumes run: "run_notebook L w = (Inr (g, s), w')"
    and nrm: "normalize_keeps_shape L"
    and mdl: "model_keeps_shape L"
  shows "\<exists>a n0 n1 n rest. data g = Eager a \<and> shape a = n0 # n1 # n # rest \<and> 0 < n0 \<and> 0 < n1
           \<and> 0 < n \<and> 2 \<le> length rest
           \<and> shape (label_slices g) = n # rest
           \<and> s = \<lparr>s_value = 0, s_min = 0, s_max = int n - 1, s_step = 1\<rparr>"
proof -
  from run_notebook_Inr [OF run] obtain a sub planes n where
    f: "data g = Eager a" "from_pretrained L ''2D_demo'' = Inr (model_versatile g)"
       "nd_getitem a [0, 0] 3 = Inr sub" "normalize L sub = Inr (img g)"
       "nd_iter (img g) = Inr planes"
       "list_all2 (\<lambda>p r. \<exists>dt. model_versatile g p = Inr (r, dt)) planes (results g)"
       "np_array (results g) = Inr (label_slices g)"
       "shape_at (shape a) 2 = Inr n" "1 \<le> n"
       "s = \<lparr>s_value = 0, s_min = 0, s_max = int n - 1, s_step = 1\<rparr>"
    by blast
  from nd_getitem_00_Inr [OF f(3)] obtain n0 n1 where
    a: "shape a = n0 # n1 # shape sub" "0 < n0" "0 < n1" "3 \<le> length (shape sub)" by blast
  from nd_iter_Inr [OF f(5)] obtain k rest where
    i: "shape (img g) = k # rest" "length planes = k" "\<forall>p\<in>set planes. shape p = rest" by blast
  from nrm f(4) i(1) have sub: "shape sub = k # rest"
    by (auto simp: normalize_keeps_shape_def)
  with a f(8) have kn: "k = n" by (simp add: shape_at_def)
  from f(6) have len: "length (results g) = length planes" by (simp add: list_all2_lengthD)
  have "\<forall>r\<in>set (results g). shape r = rest"
  proof
    fix r assume "r \<in> set (results g)"
    with f(6) obtain p dt where "p \<in> set planes" "model_versatile g p = Inr (r, dt)"
      by (blast dest: list_all2_set2)
    with mdl f(2) i(3) show "shape r = rest"
      unfolding model_keeps_shape_def by metis
  qed
  moreover from len i(2) kn f(9) have "results g \<noteq> []" by auto
  ultimately have "shape (label_slices g) = length (results g) # rest"
    using np_array_shape [OF f(7)] by blast
  with len i(2) kn have "shape (label_slices g) = n # rest" by simp
  moreover from a sub kn have "shape a = n0 # n1 # n # rest" "2 \<le> length rest" by auto
  ultimately show ?thesis using f(1) f(9) f(10) a(2,3) by auto
qed

lemma upt_0_2: "[0..<2] = [0, 1]"
  by (simp add: upt_rec)

lemmas demo_defs = demo_libs_def demo_model_def demo_globals_def

lemmas cell_defs = run_notebook_def load_data_cell_def load_labels_cell_def load_model_cell_def
  predict_cell_def compare_cell_def

lemmas eval_defs = upt_0_2 str_nat.simps shape_at_def IntSlider_def norm_index_def Let_def

lemma demo_update_0:
  "update demo_libs demo_globals 0 w =
     (Inr (), w @ [NewFigure, Subplot 121, Imshow (NdArray [1, 2] [5, 6]) ''gray'',
        ZarrRead ''https://s3.embassy.ebi.ac.uk/idr/zarr/v0.1/6001247.zarr/labels/0/'' [0, 0, 0],
        Imshow (NdArray [1, 2] [0, 1]) ''jet'', Subplot 122,
        Imshow (NdArray [1, 2] [5, 6]) ''gray'', Imshow (NdArray [1, 2] [1, 0]) ''jet'',
        TightLayout, FlushEvents])"
  by (simp add: update_def overlay_labels_def try_except_Exception_def py_defs demo_defs
        eval_defs)

lemma demo_run:
  "run_notebook demo_libs [] =
    (Inr (demo_globals, \<lparr>s_value = 0, s_min = 0, s_max = 1, s_step = 1\<rparr>),
     [PBarEnter,
      ZarrOpen ''https://s3.embassy.ebi.ac.uk/idr/zarr/v0.1/6001247.zarr/0/'',
      ZarrRead ''https://s3.embassy.ebi.ac.uk/idr/zarr/v0.1/6001247.zarr/0/'' [],
      PBarExit, Print (PShape [1, 1, 2, 1, 2]),
      ZarrOpen ''https://s3.embassy.ebi.ac.uk/idr/zarr/v0.1/6001247.zarr/labels/0/'',
      Print (PShape [1, 1, 2, 1, 2]), FromPretrained ''2D_demo'',
      Normalize (NdArray [2, 1, 2] [5, 6, 7, 8]),
      PredictInstances (NdArray [1, 2] [5, 6]),
      PredictInstances (NdArray [1, 2] [7, 8]), Interact 0 0 1 1,
      NewFigure, Subplot 121, Imshow (NdArray [1, 2] [5, 6]) ''gray'',
      ZarrRead ''https://s3.embassy.ebi.ac.uk/idr/zarr/v0.1/6001247.zarr/labels/0/'' [0, 0, 0],
      Imshow (NdArray [1, 2] [0, 1]) ''jet'', Subplot 122,
      Imshow (NdArray [1, 2] [5, 6]) ''gray'', Imshow (NdArray [1, 2] [1, 0]) ''jet'',
      TightLayout, FlushEvents])"
  by (simp add: cell_defs interact_def update_def overlay_labels_def try_except_Exception_def
        load_binary_from_s3_eq load_labels_from_s3_eq py_defs demo_defs eval_defs)

lemma demo_keeps_shape: "normalize_keeps_shape demo_libs" "model_keeps_shape demo_libs"
  by (auto simp: normalize_keeps_shape_def model_keeps_shape_def demo_libs_def demo_model_def)


lemma predict_loop_Inl:
  "list_all2 (\<lambda>x r. \<exists>dt. m x = Inr (r, dt)) ps rs \<Longrightarrow> m p = Inl e \<Longrightarrow>
   predict_loop m (ps @ p # qs) acc w = (Inl e, w @ map PredictInstances ps @ [PredictInstances p])"
proof (induction ps rs arbitrary: acc w rule: list_all2_induct)
  case Nil
  then show ?case by (simp add: py_defs)
next
  case (Cons x xs r rs)
  from Cons.hyps obtain dt where "m x = Inr (r, dt)" by blast
  with Cons.IH [OF Cons.prems, of "acc @ [r]" "w @ [PredictInstances x]"]
  show ?case by (simp add: py_defs)
qed

lemma predict_loop_all:
  "list_all2 (\<lambda>x r. \<exists>dt. m x = Inr (r, dt)) planes rs \<Longrightarrow>
   predict_loop m planes acc w = (Inr (acc @ rs), w @ map PredictInstances planes)"
proof (induction planes rs arbitrary: acc w rule: list_all2_induct)
  case Nil
  then show ?case by (simp add: py_defs)
next
  case (Cons x xs r rs)
  from Cons.hyps obtain dt where "m x = Inr (r, dt)" by blast
  with Cons.IH [of "acc @ [r]" "w @ [PredictInstances x]"]
  show ?case by (simp add: py_defs)
qed

lemma plt_call_trace: "\<exists>r. plt_call L ev w = (r, w @ [ev])"
  by (simp add: plt_call_def split: option.splits)

lemma np_asarray_trace: "\<exists>r t. np_asarray L x w = (r, w @ t)"
  by (cases x) (auto simp: py_defs)

lemma plt_imshow_trace: "\<exists>r t. plt_imshow L x c w = (r, w @ t)"
proof -
  obtain r t where a: "np_asarray L x w = (r, w @ t)" using np_asarray_trace by blast
  show ?thesis
  proof (cases r)
    case (Inl e)
    with a show ?thesis by (auto simp: plt_imshow_def py_bind_def)
  next
    case (Inr y)
    from plt_call_trace [of L "Imshow y c" "w @ t"] obtain r' where
      "plt_call L (Imshow y c) (w @ t) = (r', (w @ t) @ [Imshow y c])" by blast
    with a Inr show ?thesis by (auto simp: plt_imshow_def py_bind_def)
  qed
qed

lemma bind_trace:
  assumes "\<exists>r t. m w = (r, w @ t)" and "\<And>x v. \<exists>r t. f x v = (r, v @ t)"
  shows "\<exists>r t. py_bind m f w = (r, w @ t)"
proof -
  from assms(1) obtain r t where m: "m w = (r, w @ t)" by blast
  show ?thesis
  proof (cases r)
    case (Inl e)
    with m show ?thesis by (auto simp: py_bind_def)
  next
    case (Inr x)
    from assms(2) [of x "w @ t"] obtain r' t' where "f x (w @ t) = (r', (w @ t) @ t')" by blast
    with m Inr show ?thesis by (auto simp: py_bind_def)
  qed
qed

lemma update_begins: "\<exists>cb. snd (update L g z w) = w @ NewFigure # cb"
proof -
  obtain r where f: "plt_call L NewFigure w = (r, w @ [NewFigure])"
    using plt_call_trace by blast
  show ?thesis
  proof (cases r)
    case (Inl e)
    with f show ?thesis by (simp add: update_def py_bind_def)
  next
    case (Inr u)
    have lift: "\<And>r v. \<exists>r' t. py_lift r v = (r', v @ t)" by (simp add: py_lift_def)
    have call: "\<And>ev v. \<exists>r t. plt_call L ev v = (r, v @ t)"
      using plt_call_trace by blast
    have im: "\<And>x c v. \<exists>r t. plt_imshow L x c v = (r, v @ t)"
      using plt_imshow_trace by blast
    have pr: "\<And>x v. \<exists>r t. py_print x v = (r, v @ t)" by (simp add: py_print_def emit_def)
    have ov: "\<And>v. \<exists>r t. overlay_labels L g z v = (r, v @ t)"
      unfolding overlay_labels_def by (intro bind_trace lift im)
    have tr: "\<And>v. \<exists>r t. try_except_Exception (overlay_labels L g z) (py_print (PInt z)) v
                      = (r, v @ t)"
    proof -
      fix v
      from ov [of v] obtain r t where o: "overlay_labels L g z v = (r, v @ t)" by blast
      from pr [of "PInt z" "v @ t"] obtain r' t' where
        p: "py_print (PInt z) (v @ t) = (r', (v @ t) @ t')" by blast
      from o p show "\<exists>r t. try_except_Exception (overlay_labels L g z) (py_print (PInt z)) v
                      = (r, v @ t)"
        by (cases r) (auto simp: try_except_Exception_def split: exn.splits)
    qed
    have "\<exists>r t. (py_bind (plt_call L (Subplot 121)) (\<lambda>_.
     py_bind (py_lift (py_getitem (data g) [0, 0, z] 2)) (\<lambda>p.
     py_bind (plt_imshow L p ''gray'') (\<lambda>_.
     py_bind (try_except_Exception (overlay_labels L g z) (py_print (PInt z))) (\<lambda>_.
     py_bind (plt_call L (Subplot 122)) (\<lambda>_.
     py_bind (py_lift (py_getitem (data g) [0, 0, z] 2)) (\<lambda>p.
     py_bind (plt_imshow L p ''gray'') (\<lambda>_.
     py_bind (py_lift (nd_getitem (label_slices g) [z] 2)) (\<lambda>q.
     py_bind (plt_call L (Imshow q ''jet'')) (\<lambda>_.
     py_bind (plt_call L TightLayout) (\<lambda>_.
     plt_call L FlushEvents))))))))))) (w @ [NewFigure]) = (r, (w @ [NewFigure]) @ t)"
      by (intro bind_trace lift call im tr)
    with f Inr show ?thesis by (auto simp: update_def py_bind_def)
  qed
qed

subsection \<open>The two addresses\<close>

text \<open>
  C1. For every image identifier and every resolution string \<open>r\<close>,
  \<open>load_binary_from_s3\<close> reads from the address made of the endpoint
  \<^verbatim>\<open>https://s3.embassy.ebi.ac.uk/\<close> followed by the template
  \<^verbatim>\<open>idr/zarr/v0.1/<id>.zarr/<r>/\<close>, the identifier (as \<^verbatim>\<open>str\<close> prints it) and
  \<open>r\<close> put in as they are: that address is the one it opens, the one whose chunks it
  reads, and it touches no other.
\<close>

theorem load_binary_from_s3_url:
  "load_binary_from_s3 L ident (PyStr r) w =
     (let url = ''https://s3.embassy.ebi.ac.uk/'' @ ''idr/zarr/v0.1/'' @ py_str ident
                  @ ''.zarr/'' @ r @ ''/''
      in case zarr_open L url of
           Inl e \<Rightarrow> (Inl e, w @ [PBarEnter, ZarrOpen url, PBarExit])
         | Inr shp \<Rightarrow> (map_sum id Eager (zarr_read L url []),
                       w @ [PBarEnter, ZarrOpen url, ZarrRead url [], PBarExit]))"
  by (simp add: load_binary_from_s3_eq)

text \<open>
  C2. For every image identifier and every resolution string \<open>r\<close>,
  \<open>load_labels_from_s3\<close> opens the address of the image's store,
  \<^verbatim>\<open>https://s3.embassy.ebi.ac.uk/idr/zarr/v0.1/<id>.zarr/\<close>, followed by
  \<^verbatim>\<open>labels/<r>/\<close>, where \<open>load_binary_from_s3\<close> opens the same store followed by
  \<^verbatim>\<open><r>/\<close>.
\<close>

theorem load_labels_from_s3_url:
  "(let store = ''https://s3.embassy.ebi.ac.uk/'' @ ''idr/zarr/v0.1/'' @ py_str ident @ ''.zarr/''
    in load_labels_from_s3 L ident (PyStr r) w =
         (map_sum id (\<lambda>shp. Lazy (DaskArray (store @ ''labels/'' @ r @ ''/'') [] shp))
            (zarr_open L (store @ ''labels/'' @ r @ ''/'')),
          w @ [ZarrOpen (store @ ''labels/'' @ r @ ''/'')])
       \<and> snd (load_binary_from_s3 L ident (PyStr r) w) ! Suc (length w)
           = ZarrOpen (store @ r @ ''/''))"
  by (simp add: load_labels_from_s3_eq load_binary_from_s3_eq Let_def nth_append split: sum.splits)

subsection \<open>Lazy and materialised arrays\<close>

text \<open>
  C3, as the notebook has it. \<open>load_binary_from_s3\<close> builds the address, opens it as a
  dask array and hands that array to \<^verbatim>\<open>numpy.asarray\<close> under a progress bar: when
  it returns, every chunk has been read and the value is an array in memory, not a lazy
  one. \<open>load_labels_from_s3\<close> is the helper that returns the lazy array: it opens the
  store and reads no chunk.
\<close>

theorem load_binary_from_s3_materialized:
  "(load_binary_from_s3 L ident r w = (Inr v, w') \<longrightarrow>
      \<not> is_lazy v \<and>
      (\<exists>url a. v = Eager a \<and> zarr_read L url [] = Inr a
         \<and> w' = w @ [PBarEnter, ZarrOpen url, ZarrRead url [], PBarExit]))
   \<and> (load_labels_from_s3 L ident r w = (Inr v', w'') \<longrightarrow>
      is_lazy v' \<and> (\<exists>url. w'' = w @ [ZarrOpen url]))"
  by (auto simp: load_binary_from_s3_eq load_labels_from_s3_eq Let_def map_sum_eq_Inr
        split: sum.splits)

theorem load_binary_from_s3_materialized_witness:
  "load_binary_from_s3 demo_libs (PyInt 6001247) (PyStr ''0'') []
      = (Inr (Eager (NdArray [1, 1, 2, 1, 2] [5, 6, 7, 8])),
         [PBarEnter, ZarrOpen ''https://s3.embassy.ebi.ac.uk/idr/zarr/v0.1/6001247.zarr/0/'',
          ZarrRead ''https://s3.embassy.ebi.ac.uk/idr/zarr/v0.1/6001247.zarr/0/'' [], PBarExit])
   \<and> \<not> is_lazy (Eager (NdArray [1, 1, 2, 1, 2] [5, 6, 7, 8 :: nat]))
   \<and> load_labels_from_s3 demo_libs (PyInt 6001247) (PyStr ''0'') []
      = (Inr (Lazy (DaskArray ''https://s3.embassy.ebi.ac.uk/idr/zarr/v0.1/6001247.zarr/labels/0/''
                 [] [1, 1, 2, 1, 2])),
         [ZarrOpen ''https://s3.embassy.ebi.ac.uk/idr/zarr/v0.1/6001247.zarr/labels/0/''])
   \<and> is_lazy (Lazy (DaskArray ''https://s3.embassy.ebi.ac.uk/idr/zarr/v0.1/6001247.zarr/labels/0/''
                 [] [1, 1, 2, 1, 2]) :: nat pyarr)"
proof -
  have b: "load_binary_from_s3 demo_libs (PyInt 6001247) (PyStr ''0'') []
      = (Inr (Eager (NdArray [1, 1, 2, 1, 2] [5, 6, 7, 8])),
         [PBarEnter, ZarrOpen ''https://s3.embassy.ebi.ac.uk/idr/zarr/v0.1/6001247.zarr/0/'',
          ZarrRead ''https://s3.embassy.ebi.ac.uk/idr/zarr/v0.1/6001247.zarr/0/'' [], PBarExit])"
    by (simp add: load_binary_from_s3_eq demo_defs eval_defs)
  have l: "load_labels_from_s3 demo_libs (PyInt 6001247) (PyStr ''0'') []
      = (Inr (Lazy (DaskArray ''https://s3.embassy.ebi.ac.uk/idr/zarr/v0.1/6001247.zarr/labels/0/''
                 [] [1, 1, 2, 1, 2])),
         [ZarrOpen ''https://s3.embassy.ebi.ac.uk/idr/zarr/v0.1/6001247.zarr/labels/0/''])"
    by (simp add: load_labels_from_s3_eq demo_defs eval_defs)
  note t = load_binary_from_s3_materialized [of demo_libs "PyInt 6001247" "PyStr ''0''" "[]"]
  from t [THEN conjunct1, rule_format, OF b]
  have n: "\<not> is_lazy (Eager (NdArray [1, 1, 2, 1, 2] [5, 6, 7, 8 :: nat]))" by (rule conjunct1)
  from t [THEN conjunct2, rule_format, OF l]
  have y: "is_lazy (Lazy (DaskArray
      ''https://s3.embassy.ebi.ac.uk/idr/zarr/v0.1/6001247.zarr/labels/0/'' [] [1, 1, 2, 1, 2])
      :: nat pyarr)" by (rule conjunct1)
  from b n l y show ?thesis by (intro conjI)
qed

text \<open>
  C3 as it was stated fails: in the small world the value that \<open>load_binary_from_s3\<close>
  returns is the array in memory.
\<close>

theorem load_binary_from_s3_not_lazy:
  "fst (load_binary_from_s3 demo_libs (PyInt 6001247) (PyStr ''0'') [])
      = Inr (Eager (NdArray [1, 1, 2, 1, 2] [5, 6, 7, 8]))
   \<and> \<not> is_lazy (Eager (NdArray [1, 1, 2, 1, 2] [5, 6, 7, 8 :: nat]))"
  by (simp add: load_binary_from_s3_eq demo_defs eval_defs)

subsection \<open>The handler of the callback\<close>

text \<open>
  C4, as the notebook has it. For every index \<open>z\<close>, once the figure, the first subplot and
  the grey image plane are drawn: when the guarded overlay of the curated label plane
  raises an exception of a class that derives from \<^verbatim>\<open>Exception\<close>, whether from the
  index, from reading the plane or from drawing it, the callback catches it, prints \<open>z\<close>
  and goes on with the next statement, the second subplot, and the rest of the plot
  completes when none of its own calls raises; when the guarded overlay raises an
  exception that derives from \<^verbatim>\<open>BaseException\<close> only (KeyboardInterrupt, SystemExit),
  whatever its class, the callback does not catch it: it raises it, and prints nothing.
\<close>

theorem update_catches_Exception:
  assumes "plots_ok L w [NewFigure, Subplot 121, Imshow p ''gray'']"
    and "py_getitem (data g) [0, 0, z] 2 = Inr (Eager p)"
  shows "(overlay_labels L g z (w @ [NewFigure, Subplot 121, Imshow p ''gray'']) = (Inl (Exc n), w1)
            \<longrightarrow> (\<exists>r rest. update L g z w = (r, w1 @ [Print (PInt z), Subplot 122] @ rest)))
       \<and> (overlay_labels L g z (w @ [NewFigure, Subplot 121, Imshow p ''gray'']) = (Inl (Exc n), w1)
            \<and> nd_getitem (label_slices g) [z] 2 = Inr q
            \<and> plots_ok L (w1 @ [Print (PInt z)])
                 [Subplot 122, Imshow p ''gray'', Imshow q ''jet'', TightLayout, FlushEvents]
            \<longrightarrow> update L g z w =
                  (Inr (), w1 @ [Print (PInt z), Subplot 122, Imshow p ''gray'', Imshow q ''jet'',
                                 TightLayout, FlushEvents]))
       \<and> (overlay_labels L g z (w @ [NewFigure, Subplot 121, Imshow p ''gray'']) = (Inl (BaseExc n), w1)
            \<longrightarrow> update L g z w = (Inl (BaseExc n), w1))"
proof (intro conjI impI)
  assume ov: "overlay_labels L g z (w @ [NewFigure, Subplot 121, Imshow p ''gray'']) = (Inl (Exc n), w1)"
  with assms show "\<exists>r rest. update L g z w = (r, w1 @ [Print (PInt z), Subplot 122] @ rest)"
    by (auto simp: update_def py_defs try_except_Exception_def
          split: sum.splits option.splits)
next
  assume "overlay_labels L g z (w @ [NewFigure, Subplot 121, Imshow p ''gray'']) = (Inl (Exc n), w1)
            \<and> nd_getitem (label_slices g) [z] 2 = Inr q
            \<and> plots_ok L (w1 @ [Print (PInt z)])
                 [Subplot 122, Imshow p ''gray'', Imshow q ''jet'', TightLayout, FlushEvents]"
  with assms show "update L g z w =
                  (Inr (), w1 @ [Print (PInt z), Subplot 122, Imshow p ''gray'', Imshow q ''jet'',
                                 TightLayout, FlushEvents])"
    by (simp add: update_def py_defs try_except_Exception_def)
next
  assume "overlay_labels L g z (w @ [NewFigure, Subplot 121, Imshow p ''gray'']) = (Inl (BaseExc n), w1)"
  with assms show "update L g z w = (Inl (BaseExc n), w1)"
    by (simp add: update_def py_defs try_except_Exception_def)
qed

theorem update_catches_Exception_witness:
  "update demo_libs demo_globals 1 [] =
     (Inr (), [NewFigure, Subplot 121, Imshow (NdArray [1, 2] [7, 8]) ''gray'',
         ZarrRead ''https://s3.embassy.ebi.ac.uk/idr/zarr/v0.1/6001247.zarr/labels/0/'' [0, 0, 1],
         Print (PInt 1), Subplot 122, Imshow (NdArray [1, 2] [7, 8]) ''gray'',
         Imshow (NdArray [1, 2] [1, 0]) ''jet'', TightLayout, FlushEvents])
   \<and> update (demo_libs\<lparr>zarr_read := (\<lambda>u ix. Inl (BaseExc ''SystemExit''))\<rparr>) demo_globals 1 []
     = (Inl (BaseExc ''SystemExit''),
        [NewFigure, Subplot 121, Imshow (NdArray [1, 2] [7, 8]) ''gray'',
         ZarrRead ''https://s3.embassy.ebi.ac.uk/idr/zarr/v0.1/6001247.zarr/labels/0/'' [0, 0, 1]])"
proof -
  let ?L = "demo_libs\<lparr>zarr_read := (\<lambda>u ix. Inl (BaseExc ''SystemExit''))\<rparr>"
  have pre: "plots_ok demo_libs [] [NewFigure, Subplot 121, Imshow (NdArray [1, 2] [7, 8]) ''gray'']"
    and pre': "plots_ok ?L [] [NewFigure, Subplot 121, Imshow (NdArray [1, 2] [7, 8]) ''gray'']"
    by (simp_all add: demo_defs)
  have ix: "py_getitem (data demo_globals) [0, 0, 1] 2 = Inr (Eager (NdArray [1, 2] [7, 8]))"
    by (simp add: demo_defs eval_defs)
  have ov: "overlay_labels demo_libs demo_globals 1
              ([] @ [NewFigure, Subplot 121, Imshow (NdArray [1, 2] [7, 8]) ''gray''])
     = (Inl (Exc ''KeyError''),
        [NewFigure, Subplot 121, Imshow (NdArray [1, 2] [7, 8]) ''gray'',
         ZarrRead ''https://s3.embassy.ebi.ac.uk/idr/zarr/v0.1/6001247.zarr/labels/0/'' [0, 0, 1]])"
    by (simp add: overlay_labels_def py_defs demo_defs eval_defs)
  have ov': "overlay_labels ?L demo_globals 1
              ([] @ [NewFigure, Subplot 121, Imshow (NdArray [1, 2] [7, 8]) ''gray''])
     = (Inl (BaseExc ''SystemExit''),
        [NewFigure, Subplot 121, Imshow (NdArray [1, 2] [7, 8]) ''gray'',
         ZarrRead ''https://s3.embassy.ebi.ac.uk/idr/zarr/v0.1/6001247.zarr/labels/0/'' [0, 0, 1]])"
    by (simp add: overlay_labels_def py_defs demo_defs eval_defs)
  have q: "nd_getitem (label_slices demo_globals) [1] 2 = Inr (NdArray [1, 2] [1, 0])"
    by (simp add: demo_defs eval_defs)
  have rest: "plots_ok demo_libs
       ([NewFigure, Subplot 121, Imshow (NdArray [1, 2] [7, 8]) ''gray'',
         ZarrRead ''https://s3.embassy.ebi.ac.uk/idr/zarr/v0.1/6001247.zarr/labels/0/'' [0, 0, 1]]
        @ [Print (PInt 1)])
       [Subplot 122, Imshow (NdArray [1, 2] [7, 8]) ''gray'', Imshow (NdArray [1, 2] [1, 0]) ''jet'',
        TightLayout, FlushEvents]"
    by (simp add: demo_defs)
  have a: "update demo_libs demo_globals 1 [] = (Inr (),
         [NewFigure, Subplot 121, Imshow (NdArray [1, 2] [7, 8]) ''gray'',
         ZarrRead ''https://s3.embassy.ebi.ac.uk/idr/zarr/v0.1/6001247.zarr/labels/0/'' [0, 0, 1]]
         @ [Print (PInt 1), Subplot 122, Imshow (NdArray [1, 2] [7, 8]) ''gray'',
         Imshow (NdArray [1, 2] [1, 0]) ''jet'', TightLayout, FlushEvents])"
    by (rule update_catches_Exception [OF pre ix, THEN conjunct2, THEN conjunct1, rule_format,
          OF conjI [OF ov conjI [OF q rest]]])
  have b: "update ?L demo_globals 1 [] = (Inl (BaseExc ''SystemExit''),
         [NewFigure, Subplot 121, Imshow (NdArray [1, 2] [7, 8]) ''gray'',
         ZarrRead ''https://s3.embassy.ebi.ac.uk/idr/zarr/v0.1/6001247.zarr/labels/0/'' [0, 0, 1]])"
    by (rule update_catches_Exception [OF pre' ix, THEN conjunct2, THEN conjunct2, rule_format,
          OF ov'])
  from a b show ?thesis by simp
qed

text \<open>
  C4 as it was stated fails for the exceptions that derive from \<^verbatim>\<open>BaseException\<close>
  only: a KeyboardInterrupt raised while the label plane is read leaves the callback, and
  nothing is printed.
\<close>

theorem update_KeyboardInterrupt_escapes:
  "update (demo_libs\<lparr>zarr_read := (\<lambda>u ix. Inl (BaseExc ''KeyboardInterrupt''))\<rparr>) demo_globals 1 []
     = (Inl (BaseExc ''KeyboardInterrupt''),
        [NewFigure, Subplot 121, Imshow (NdArray [1, 2] [7, 8]) ''gray'',
         ZarrRead ''https://s3.embassy.ebi.ac.uk/idr/zarr/v0.1/6001247.zarr/labels/0/'' [0, 0, 1]])"
  by (simp add: update_def overlay_labels_def py_defs try_except_Exception_def demo_defs eval_defs)

subsection \<open>Inference, plane by plane\<close>



subsection \<open>No recovery outside the callback\<close>

text \<open>
  C6. Neither helper recovers, retries or reports: when opening the store raises, or, for
  the image, when reading its chunks raises, the helper makes no further attempt (the
  trace holds the one call that failed, and the removal of the progress bar) and raises
  that very exception. No other statement of the notebook outside the callback handles an
  exception either. The run raises what the cell that fails raises, whichever cell it
  is, with nothing done after it. The prediction cell raises what the index, the
  normalisation, the iteration, the model on the first plane where it fails, or the
  stacking raises. The last cell raises what \<^verbatim>\<open>data.shape[2]\<close> or the slider raises,
  and an exception that leaves the callback while the widget is first drawn is handed to
  ipywidgets as it is.
\<close>

theorem fetch_helpers_propagate:
  "(zarr_open L (''https://s3.embassy.ebi.ac.uk/idr/zarr/v0.1/'' @ py_str ident @ ''.zarr/'' @ py_str r @ ''/'') = Inl e
      \<longrightarrow> load_binary_from_s3 L ident r w =
          (Inl e, w @ [PBarEnter, ZarrOpen (''https://s3.embassy.ebi.ac.uk/idr/zarr/v0.1/'' @ py_str ident @ ''.zarr/'' @ py_str r @ ''/''), PBarExit]))
   \<and> (zarr_open L (''https://s3.embassy.ebi.ac.uk/idr/zarr/v0.1/'' @ py_str ident @ ''.zarr/'' @ py_str r @ ''/'') = Inr shp
      \<and> zarr_read L (''https://s3.embassy.ebi.ac.uk/idr/zarr/v0.1/'' @ py_str ident @ ''.zarr/'' @ py_str r @ ''/'') [] = Inl e
      \<longrightarrow> load_binary_from_s3 L ident r w =
          (Inl e, w @ [PBarEnter, ZarrOpen (''https://s3.embassy.ebi.ac.uk/idr/zarr/v0.1/'' @ py_str ident @ ''.zarr/'' @ py_str r @ ''/''),
                       ZarrRead (''https://s3.embassy.ebi.ac.uk/idr/zarr/v0.1/'' @ py_str ident @ ''.zarr/'' @ py_str r @ ''/'') [], PBarExit]))
   \<and> (zarr_open L (''https://s3.embassy.ebi.ac.uk/idr/zarr/v0.1/'' @ py_str ident @ ''.zarr/labels/'' @ py_str r @ ''/'') = Inl e
      \<longrightarrow> load_labels_from_s3 L ident r w =
          (Inl e, w @ [ZarrOpen (''https://s3.embassy.ebi.ac.uk/idr/zarr/v0.1/'' @ py_str ident @ ''.zarr/labels/'' @ py_str r @ ''/'')]))
   \<and> (load_binary_from_s3 L (PyInt 6001247) (PyStr ''0'') w = (Inl e, w1)
      \<longrightarrow> run_notebook L w = (Inl e, w1))
   \<and> (load_data_cell L (PyInt 6001247) w = (Inr d, w1)
      \<and> load_labels_from_s3 L (PyInt 6001247) (PyStr ''0'') w1 = (Inl e, w2)
      \<longrightarrow> run_notebook L w = (Inl e, w2))
   \<and> (load_data_cell L (PyInt 6001247) w = (Inr d, w1)
      \<and> load_labels_cell L (PyInt 6001247) w1 = (Inr lb, w2)
      \<and> from_pretrained L ''2D_demo'' = Inl e
      \<longrightarrow> run_notebook L w = (Inl e, w2 @ [FromPretrained ''2D_demo'']))
   \<and> (load_data_cell L (PyInt 6001247) w = (Inr d, w1)
      \<and> load_labels_cell L (PyInt 6001247) w1 = (Inr lb, w2)
      \<and> load_model_cell L w2 = (Inr m, w3)
      \<and> predict_cell L m d w3 = (Inl e, w4)
      \<longrightarrow> run_notebook L w = (Inl e, w4))
   \<and> (load_data_cell L (PyInt 6001247) w = (Inr d, w1)
      \<and> load_labels_cell L (PyInt 6001247) w1 = (Inr lb, w2)
      \<and> load_model_cell L w2 = (Inr m, w3)
      \<and> predict_cell L m d w3 = (Inr (im, rs, ls), w4)
      \<and> compare_cell L
            \<lparr>image_id = PyInt 6001247, data = d, labels = lb, model_versatile = m,
              img = im, results = rs, label_slices = ls\<rparr> w4 = (Inl e, w5)
      \<longrightarrow> run_notebook L w = (Inl e, w5))
   \<and> (nd_getitem b [0, 0] 3 = Inl e
      \<longrightarrow> predict_cell L m (Eager b) w = (Inl e, w))
   \<and> (nd_getitem b [0, 0] 3 = Inr a \<and> normalize L a = Inl e
      \<longrightarrow> predict_cell L m (Eager b) w = (Inl e, w @ [Normalize a]))
   \<and> (nd_getitem b [0, 0] 3 = Inr a \<and> normalize L a = Inr im \<and> nd_iter im = Inl e
      \<longrightarrow> predict_cell L m (Eager b) w = (Inl e, w @ [Normalize a]))
   \<and> (nd_getitem b [0, 0] 3 = Inr a \<and> normalize L a = Inr im
      \<and> nd_iter im = Inr (ps @ p # qs)
      \<and> list_all2 (\<lambda>x r. \<exists>dt. m x = Inr (r, dt)) ps rs \<and> m p = Inl e
      \<longrightarrow> predict_cell L m (Eager b) w =
          (Inl e, w @ Normalize a # map PredictInstances ps @ [PredictInstances p]))
   \<and> (nd_getitem b [0, 0] 3 = Inr a \<and> normalize L a = Inr im
      \<and> nd_iter im = Inr planes
      \<and> list_all2 (\<lambda>x r. \<exists>dt. m x = Inr (r, dt)) planes rs \<and> np_array rs = Inl e
      \<longrightarrow> predict_cell L m (Eager b) w =
          (Inl e, w @ Normalize a # map PredictInstances planes))
   \<and> (shape_at (py_shape (data g)) 2 = Inl e
      \<longrightarrow> compare_cell L g w = (Inl e, w))
   \<and> (shape_at (py_shape (data g)) 2 = Inr n \<and> IntSlider 0 0 (int n - 1) 1 = Inl e
      \<longrightarrow> compare_cell L g w = (Inl e, w))
   \<and> (shape_at (py_shape (data g)) 2 = Inr n \<and> 0 < n
      \<and> update L g 0 (w @ [Interact 0 0 (int n - 1) 1]) = (Inl e, w1)
      \<longrightarrow> compare_cell L g w =
          (case callback_error L e of
             None \<Rightarrow> (Inr \<lparr>s_value = 0, s_min = 0, s_max = int n - 1, s_step = 1\<rparr>, w1)
           | Some e' \<Rightarrow> (Inl e', w1)))"
proof (intro conjI impI)
  show "load_binary_from_s3 L ident r w =
          (Inl e, w @ [PBarEnter, ZarrOpen (''https://s3.embassy.ebi.ac.uk/idr/zarr/v0.1/'' @ py_str ident @ ''.zarr/'' @ py_str r @ ''/''), PBarExit])"
    if "zarr_open L (''https://s3.embassy.ebi.ac.uk/idr/zarr/v0.1/'' @ py_str ident @ ''.zarr/'' @ py_str r @ ''/'') = Inl e"
    using that by (simp add: load_binary_from_s3_eq Let_def)
  show "load_binary_from_s3 L ident r w =
          (Inl e, w @ [PBarEnter, ZarrOpen (''https://s3.embassy.ebi.ac.uk/idr/zarr/v0.1/'' @ py_str ident @ ''.zarr/'' @ py_str r @ ''/''),
                       ZarrRead (''https://s3.embassy.ebi.ac.uk/idr/zarr/v0.1/'' @ py_str ident @ ''.zarr/'' @ py_str r @ ''/'') [], PBarExit])"
    if "zarr_open L (''https://s3.embassy.ebi.ac.uk/idr/zarr/v0.1/'' @ py_str ident @ ''.zarr/'' @ py_str r @ ''/'') = Inr shp
      \<and> zarr_read L (''https://s3.embassy.ebi.ac.uk/idr/zarr/v0.1/'' @ py_str ident @ ''.zarr/'' @ py_str r @ ''/'') [] = Inl e"
    using that by (simp add: load_binary_from_s3_eq Let_def)
  show "load_labels_from_s3 L ident r w =
          (Inl e, w @ [ZarrOpen (''https://s3.embassy.ebi.ac.uk/idr/zarr/v0.1/'' @ py_str ident @ ''.zarr/labels/'' @ py_str r @ ''/'')])"
    if "zarr_open L (''https://s3.embassy.ebi.ac.uk/idr/zarr/v0.1/'' @ py_str ident @ ''.zarr/labels/'' @ py_str r @ ''/'') = Inl e"
    using that by (simp add: load_labels_from_s3_eq Let_def)
  show "run_notebook L w = (Inl e, w1)"
    if "load_binary_from_s3 L (PyInt 6001247) (PyStr ''0'') w = (Inl e, w1)"
    using that by (simp add: run_notebook_def load_data_cell_def py_bind_def py_return_def)
  show "run_notebook L w = (Inl e, w2)"
    if "load_data_cell L (PyInt 6001247) w = (Inr d, w1)
      \<and> load_labels_from_s3 L (PyInt 6001247) (PyStr ''0'') w1 = (Inl e, w2)"
    using that by (simp add: run_notebook_def load_labels_cell_def py_bind_def py_return_def)
  show "run_notebook L w = (Inl e, w2 @ [FromPretrained ''2D_demo''])"
    if "load_data_cell L (PyInt 6001247) w = (Inr d, w1)
      \<and> load_labels_cell L (PyInt 6001247) w1 = (Inr lb, w2)
      \<and> from_pretrained L ''2D_demo'' = Inl e"
    using that
    by (simp add: run_notebook_def load_model_cell_def call_def emit_def py_lift_def py_bind_def
          py_return_def)
  show "run_notebook L w = (Inl e, w4)"
    if "load_data_cell L (PyInt 6001247) w = (Inr d, w1)
      \<and> load_labels_cell L (PyInt 6001247) w1 = (Inr lb, w2)
      \<and> load_model_cell L w2 = (Inr m, w3)
      \<and> predict_cell L m d w3 = (Inl e, w4)"
    using that by (simp add: run_notebook_def py_bind_def py_return_def)
  show "run_notebook L w = (Inl e, w5)"
    if "load_data_cell L (PyInt 6001247) w = (Inr d, w1)
      \<and> load_labels_cell L (PyInt 6001247) w1 = (Inr lb, w2)
      \<and> load_model_cell L w2 = (Inr m, w3)
      \<and> predict_cell L m d w3 = (Inr (im, rs, ls), w4)
      \<and> compare_cell L
            \<lparr>image_id = PyInt 6001247, data = d, labels = lb, model_versatile = m,
              img = im, results = rs, label_slices = ls\<rparr> w4 = (Inl e, w5)"
    using that by (simp add: run_notebook_def py_bind_def py_return_def)
  show "predict_cell L m (Eager b) w = (Inl e, w)"
    if "nd_getitem b [0, 0] 3 = Inl e"
    using that by (simp add: predict_cell_def py_bind_def py_lift_def)
  show "predict_cell L m (Eager b) w = (Inl e, w @ [Normalize a])"
    if "nd_getitem b [0, 0] 3 = Inr a \<and> normalize L a = Inl e"
    using that by (simp add: predict_cell_def py_defs)
  show "predict_cell L m (Eager b) w = (Inl e, w @ [Normalize a])"
    if "nd_getitem b [0, 0] 3 = Inr a \<and> normalize L a = Inr im \<and> nd_iter im = Inl e"
    using that by (simp add: predict_cell_def py_defs)
  show "predict_cell L m (Eager b) w =
          (Inl e, w @ Normalize a # map PredictInstances ps @ [PredictInstances p])"
    if "nd_getitem b [0, 0] 3 = Inr a \<and> normalize L a = Inr im
      \<and> nd_iter im = Inr (ps @ p # qs)
      \<and> list_all2 (\<lambda>x r. \<exists>dt. m x = Inr (r, dt)) ps rs \<and> m p = Inl e"
    using that predict_loop_Inl [of m ps rs p e qs "[]" "w @ [Normalize a]"]
    by (simp add: predict_cell_def py_defs)
  show "predict_cell L m (Eager b) w =
          (Inl e, w @ Normalize a # map PredictInstances planes)"
    if "nd_getitem b [0, 0] 3 = Inr a \<and> normalize L a = Inr im
      \<and> nd_iter im = Inr planes
      \<and> list_all2 (\<lambda>x r. \<exists>dt. m x = Inr (r, dt)) planes rs \<and> np_array rs = Inl e"
    using that predict_loop_all [of m planes rs "[]" "w @ [Normalize a]"]
    by (simp add: predict_cell_def py_defs)
  show "compare_cell L g w = (Inl e, w)"
    if "shape_at (py_shape (data g)) 2 = Inl e"
    using that by (simp add: compare_cell_def py_bind_def py_lift_def)
  show "compare_cell L g w = (Inl e, w)"
    if "shape_at (py_shape (data g)) 2 = Inr n \<and> IntSlider 0 0 (int n - 1) 1 = Inl e"
    using that by (simp add: compare_cell_def py_bind_def py_lift_def)
  show "compare_cell L g w =
          (case callback_error L e of
             None \<Rightarrow> (Inr \<lparr>s_value = 0, s_min = 0, s_max = int n - 1, s_step = 1\<rparr>, w1)
           | Some e' \<Rightarrow> (Inl e', w1))"
    if "shape_at (py_shape (data g)) 2 = Inr n \<and> 0 < n
      \<and> update L g 0 (w @ [Interact 0 0 (int n - 1) 1]) = (Inl e, w1)"
    using that
    by (simp add: compare_cell_def interact_def IntSlider_def py_bind_def py_lift_def emit_def
          py_return_def split: option.splits)
qed

theorem fetch_helpers_propagate_witness:
  "load_binary_from_s3 (demo_libs\<lparr>zarr_open := (\<lambda>u. Inl (Exc ''OSError''))\<rparr>) (PyInt 6001247) (PyStr ''0'') [] =
      (Inl (Exc ''OSError''), [PBarEnter,
         ZarrOpen ''https://s3.embassy.ebi.ac.uk/idr/zarr/v0.1/6001247.zarr/0/'',
         PBarExit])
   \<and> load_binary_from_s3 (demo_libs\<lparr>zarr_read := (\<lambda>u ix. Inl (BaseExc ''KeyboardInterrupt''))\<rparr>) (PyInt 6001247) (PyStr ''0'') [] =
      (Inl (BaseExc ''KeyboardInterrupt''), [PBarEnter,
         ZarrOpen ''https://s3.embassy.ebi.ac.uk/idr/zarr/v0.1/6001247.zarr/0/'',
         ZarrRead ''https://s3.embassy.ebi.ac.uk/idr/zarr/v0.1/6001247.zarr/0/'' [],
         PBarExit])
   \<and> load_labels_from_s3 (demo_libs\<lparr>zarr_open := (\<lambda>u. Inl (Exc ''OSError''))\<rparr>) (PyInt 6001247) (PyStr ''0'') [] =
      (Inl (Exc ''OSError''), [ZarrOpen ''https://s3.embassy.ebi.ac.uk/idr/zarr/v0.1/6001247.zarr/labels/0/''])
   \<and> run_notebook (demo_libs\<lparr>zarr_open := (\<lambda>u. Inl (Exc ''OSError''))\<rparr>) [] =
      (Inl (Exc ''OSError''), [PBarEnter,
         ZarrOpen ''https://s3.embassy.ebi.ac.uk/idr/zarr/v0.1/6001247.zarr/0/'',
         PBarExit])
   \<and> run_notebook (demo_libs\<lparr>zarr_open :=
         (\<lambda>u. if u = ''https://s3.embassy.ebi.ac.uk/idr/zarr/v0.1/6001247.zarr/labels/0/''
              then Inl (Exc ''OSError'') else Inr [1, 1, 2, 1, 2])\<rparr>) [] =
      (Inl (Exc ''OSError''), [PBarEnter,
         ZarrOpen ''https://s3.embassy.ebi.ac.uk/idr/zarr/v0.1/6001247.zarr/0/'',
         ZarrRead ''https://s3.embassy.ebi.ac.uk/idr/zarr/v0.1/6001247.zarr/0/'' [],
         PBarExit,
         Print (PShape [1, 1, 2, 1, 2]),
         ZarrOpen ''https://s3.embassy.ebi.ac.uk/idr/zarr/v0.1/6001247.zarr/labels/0/''])
   \<and> run_notebook (demo_libs\<lparr>from_pretrained := (\<lambda>n. Inl (Exc ''ValueError''))\<rparr>) [] =
      (Inl (Exc ''ValueError''), [PBarEnter,
         ZarrOpen ''https://s3.embassy.ebi.ac.uk/idr/zarr/v0.1/6001247.zarr/0/'',
         ZarrRead ''https://s3.embassy.ebi.ac.uk/idr/zarr/v0.1/6001247.zarr/0/'' [],
         PBarExit,
         Print (PShape [1, 1, 2, 1, 2]),
         ZarrOpen ''https://s3.embassy.ebi.ac.uk/idr/zarr/v0.1/6001247.zarr/labels/0/'',
         Print (PShape [1, 1, 2, 1, 2]),
         FromPretrained ''2D_demo''])
   \<and> run_notebook (demo_libs\<lparr>normalize := (\<lambda>a. Inl (Exc ''MemoryError''))\<rparr>) [] =
      (Inl (Exc ''MemoryError''), [PBarEnter,
         ZarrOpen ''https://s3.embassy.ebi.ac.uk/idr/zarr/v0.1/6001247.zarr/0/'',
         ZarrRead ''https://s3.embassy.ebi.ac.uk/idr/zarr/v0.1/6001247.zarr/0/'' [],
         PBarExit,
         Print (PShape [1, 1, 2, 1, 2]),
         ZarrOpen ''https://s3.embassy.ebi.ac.uk/idr/zarr/v0.1/6001247.zarr/labels/0/'',
         Print (PShape [1, 1, 2, 1, 2]),
         FromPretrained ''2D_demo'',
         Normalize (NdArray [2, 1, 2] [5, 6, 7, 8])])
   \<and> run_notebook (demo_libs\<lparr>zarr_read := (\<lambda>u ix. Inr (NdArray [1, 1, 0, 1, 2] []))\<rparr>) [] =
      (Inl (Exc ''TraitError''), [PBarEnter,
         ZarrOpen ''https://s3.embassy.ebi.ac.uk/idr/zarr/v0.1/6001247.zarr/0/'',
         ZarrRead ''https://s3.embassy.ebi.ac.uk/idr/zarr/v0.1/6001247.zarr/0/'' [],
         PBarExit,
         Print (PShape [1, 1, 0, 1, 2]),
         ZarrOpen ''https://s3.embassy.ebi.ac.uk/idr/zarr/v0.1/6001247.zarr/labels/0/'',
         Print (PShape [1, 1, 2, 1, 2]),
         FromPretrained ''2D_demo'',
         Normalize (NdArray [0, 1, 2] [])])
   \<and> predict_cell demo_libs demo_model (Eager (NdArray [2, 2] [1, 2, 3, 4])) [] =
      (Inl (Exc ''IndexError''), [])
   \<and> predict_cell (demo_libs\<lparr>normalize := (\<lambda>a. Inl (Exc ''MemoryError''))\<rparr>) demo_model (Eager (NdArray [1, 1, 2, 1, 2] [5, 6, 7, 8])) [] =
      (Inl (Exc ''MemoryError''), [Normalize (NdArray [2, 1, 2] [5, 6, 7, 8])])
   \<and> predict_cell (demo_libs\<lparr>normalize := (\<lambda>a. Inr (NdArray [] [0]))\<rparr>) demo_model (Eager (NdArray [1, 1, 2, 1, 2] [5, 6, 7, 8])) [] =
      (Inl (Exc ''TypeError''), [Normalize (NdArray [2, 1, 2] [5, 6, 7, 8])])
   \<and> predict_cell demo_libs (\<lambda>p. if elems p = [7, 8] then Inl (Exc ''ValueError'') else demo_model p)
        (Eager (NdArray [1, 1, 2, 1, 2] [5, 6, 7, 8])) [] =
      (Inl (Exc ''ValueError''),
       [Normalize (NdArray [2, 1, 2] [5, 6, 7, 8]), PredictInstances (NdArray [1, 2] [5, 6]), PredictInstances (NdArray [1, 2] [7, 8])])
   \<and> predict_cell demo_libs (\<lambda>p. Inr (NdArray [hd (elems p)] [], []))
        (Eager (NdArray [1, 1, 2, 1, 2] [5, 6, 7, 8])) [] =
      (Inl (Exc ''ValueError''),
       [Normalize (NdArray [2, 1, 2] [5, 6, 7, 8]), PredictInstances (NdArray [1, 2] [5, 6]), PredictInstances (NdArray [1, 2] [7, 8])])
   \<and> compare_cell demo_libs (demo_globals\<lparr>data := Eager (NdArray [2] [0, 0])\<rparr>) [] =
      (Inl (Exc ''IndexError''), [])
   \<and> compare_cell demo_libs (demo_globals\<lparr>data := Eager (NdArray [1, 1, 0, 1, 2] [])\<rparr>) [] =
      (Inl (Exc ''TraitError''), [])
   \<and> compare_cell (plot_fails_at 1 (Exc ''RuntimeError'')) demo_globals [] =
      (Inr \<lparr>s_value = 0, s_min = 0, s_max = 1, s_step = 1\<rparr>, [Interact 0 0 1 1, NewFigure])
   \<and> compare_cell (plot_fails_at 1 (Exc ''RuntimeError'')\<lparr>callback_error := Some\<rparr>) demo_globals [] =
      (Inl (Exc ''RuntimeError''), [Interact 0 0 1 1, NewFigure])"
proof -
  note T = fetch_helpers_propagate
  have h_h1: "zarr_open (demo_libs\<lparr>zarr_open := (\<lambda>u. Inl (Exc ''OSError''))\<rparr>) (''https://s3.embassy.ebi.ac.uk/idr/zarr/v0.1/'' @ py_str (PyInt 6001247) @ ''.zarr/'' @ py_str (PyStr ''0'') @ ''/'') = Inl (Exc ''OSError'')"
    by (simp add: load_binary_from_s3_eq load_labels_from_s3_eq load_data_cell_def load_labels_cell_def load_model_cell_def plot_fails_at_def py_defs demo_defs eval_defs )
  have h1: "load_binary_from_s3 (demo_libs\<lparr>zarr_open := (\<lambda>u. Inl (Exc ''OSError''))\<rparr>) (PyInt 6001247) (PyStr ''0'') [] =
      (Inl (Exc ''OSError''), [] @ [PBarEnter, ZarrOpen (''https://s3.embassy.ebi.ac.uk/idr/zarr/v0.1/'' @ py_str (PyInt 6001247) @ ''.zarr/'' @ py_str (PyStr ''0'') @ ''/''), PBarExit])"
    by (rule T [THEN conjunct1, rule_format, OF h_h1])
  have h_h2: "zarr_open (demo_libs\<lparr>zarr_read := (\<lambda>u ix. Inl (BaseExc ''KeyboardInterrupt''))\<rparr>) (''https://s3.embassy.ebi.ac.uk/idr/zarr/v0.1/'' @ py_str (PyInt 6001247) @ ''.zarr/'' @ py_str (PyStr ''0'') @ ''/'') = Inr [1, 1, 2, 1, 2]
      \<and> zarr_read (demo_libs\<lparr>zarr_read := (\<lambda>u ix. Inl (BaseExc ''KeyboardInterrupt''))\<rparr>) (''https://s3.embassy.ebi.ac.uk/idr/zarr/v0.1/'' @ py_str (PyInt 6001247) @ ''.zarr/'' @ py_str (PyStr ''0'') @ ''/'') [] = Inl (BaseExc ''KeyboardInterrupt'')"
    by (simp add: load_binary_from_s3_eq load_labels_from_s3_eq load_data_cell_def load_labels_cell_def load_model_cell_def plot_fails_at_def py_defs demo_defs eval_defs )
  have h2: "load_binary_from_s3 (demo_libs\<lparr>zarr_read := (\<lambda>u ix. Inl (BaseExc ''KeyboardInterrupt''))\<rparr>) (PyInt 6001247) (PyStr ''0'') [] =
      (Inl (BaseExc ''KeyboardInterrupt''), [] @ [PBarEnter, ZarrOpen (''https://s3.embassy.ebi.ac.uk/idr/zarr/v0.1/'' @ py_str (PyInt 6001247) @ ''.zarr/'' @ py_str (PyStr ''0'') @ ''/''),
          ZarrRead (''https://s3.embassy.ebi.ac.uk/idr/zarr/v0.1/'' @ py_str (PyInt 6001247) @ ''.zarr/'' @ py_str (PyStr ''0'') @ ''/'') [], PBarExit])"
    by (rule T [THEN conjunct2, THEN conjunct1, rule_format, OF h_h2])
  have h_h3: "zarr_open (demo_libs\<lparr>zarr_open := (\<lambda>u. Inl (Exc ''OSError''))\<rparr>) (''https://s3.embassy.ebi.ac.uk/idr/zarr/v0.1/'' @ py_str (PyInt 6001247) @ ''.zarr/labels/'' @ py_str (PyStr ''0'') @ ''/'') = Inl (Exc ''OSError'')"
    by (simp add: load_binary_from_s3_eq load_labels_from_s3_eq load_data_cell_def load_labels_cell_def load_model_cell_def plot_fails_at_def py_defs demo_defs eval_defs )
  have h3: "load_labels_from_s3 (demo_libs\<lparr>zarr_open := (\<lambda>u. Inl (Exc ''OSError''))\<rparr>) (PyInt 6001247) (PyStr ''0'') [] =
      (Inl (Exc ''OSError''), [] @ [ZarrOpen (''https://s3.embassy.ebi.ac.uk/idr/zarr/v0.1/'' @ py_str (PyInt 6001247) @ ''.zarr/labels/'' @ py_str (PyStr ''0'') @ ''/'')])"
    by (rule T [THEN conjunct2, THEN conjunct2, THEN conjunct1, rule_format, OF h_h3])
  have h_r1: "load_binary_from_s3 (demo_libs\<lparr>zarr_open := (\<lambda>u. Inl (Exc ''OSError''))\<rparr>) (PyInt 6001247) (PyStr ''0'') [] =
      (Inl (Exc ''OSError''), [PBarEnter,
         ZarrOpen ''https://s3.embassy.ebi.ac.uk/idr/zarr/v0.1/6001247.zarr/0/'',
         PBarExit])"
    by (simp add: load_binary_from_s3_eq load_labels_from_s3_eq load_data_cell_def load_labels_cell_def load_model_cell_def plot_fails_at_def py_defs demo_defs eval_defs )
  have r1: "run_notebook (demo_libs\<lparr>zarr_open := (\<lambda>u. Inl (Exc ''OSError''))\<rparr>) [] =
      (Inl (Exc ''OSError''), [PBarEnter,
         ZarrOpen ''https://s3.embassy.ebi.ac.uk/idr/zarr/v0.1/6001247.zarr/0/'',
         PBarExit])"
    by (rule T [THEN conjunct2, THEN conjunct2, THEN conjunct2, THEN conjunct1, rule_format, OF h_r1])
  have h_r2: "load_data_cell (demo_libs\<lparr>zarr_open :=
         (\<lambda>u. if u = ''https://s3.embassy.ebi.ac.uk/idr/zarr/v0.1/6001247.zarr/labels/0/''
              then Inl (Exc ''OSError'') else Inr [1, 1, 2, 1, 2])\<rparr>) (PyInt 6001247) [] =
        (Inr (Eager (NdArray [1, 1, 2, 1, 2] [5, 6, 7, 8])), [PBarEnter,
         ZarrOpen ''https://s3.embassy.ebi.ac.uk/idr/zarr/v0.1/6001247.zarr/0/'',
         ZarrRead ''https://s3.embassy.ebi.ac.uk/idr/zarr/v0.1/6001247.zarr/0/'' [],
         PBarExit,
         Print (PShape [1, 1, 2, 1, 2])])
      \<and> load_labels_from_s3 (demo_libs\<lparr>zarr_open :=
         (\<lambda>u. if u = ''https://s3.embassy.ebi.ac.uk/idr/zarr/v0.1/6001247.zarr/labels/0/''
              then Inl (Exc ''OSError'') else Inr [1, 1, 2, 1, 2])\<rparr>) (PyInt 6001247) (PyStr ''0'') [PBarEnter,
         ZarrOpen ''https://s3.embassy.ebi.ac.uk/idr/zarr/v0.1/6001247.zarr/0/'',
         ZarrRead ''https://s3.embassy.ebi.ac.uk/idr/zarr/v0.1/6001247.zarr/0/'' [],
         PBarExit,
         Print (PShape [1, 1, 2, 1, 2])] =
        (Inl (Exc ''OSError''), [PBarEnter,
         ZarrOpen ''https://s3.embassy.ebi.ac.uk/idr/zarr/v0.1/6001247.zarr/0/'',
         ZarrRead ''https://s3.embassy.ebi.ac.uk/idr/zarr/v0.1/6001247.zarr/0/'' [],
         PBarExit,
         Print (PShape [1, 1, 2, 1, 2]),
         ZarrOpen ''https://s3.embassy.ebi.ac.uk/idr/zarr/v0.1/6001247.zarr/labels/0/''])"
    by (simp add: load_binary_from_s3_eq load_labels_from_s3_eq load_data_cell_def load_labels_cell_def load_model_cell_def plot_fails_at_def py_defs demo_defs eval_defs )
  have r2: "run_notebook (demo_libs\<lparr>zarr_open :=
         (\<lambda>u. if u = ''https://s3.embassy.ebi.ac.uk/idr/zarr/v0.1/6001247.zarr/labels/0/''
              then Inl (Exc ''OSError'') else Inr [1, 1, 2, 1, 2])\<rparr>) [] =
      (Inl (Exc ''OSError''), [PBarEnter,
         ZarrOpen ''https://s3.embassy.ebi.ac.uk/idr/zarr/v0.1/6001247.zarr/0/'',
         ZarrRead ''https://s3.embassy.ebi.ac.uk/idr/zarr/v0.1/6001247.zarr/0/'' [],
         PBarExit,
         Print (PShape [1, 1, 2, 1, 2]),
         ZarrOpen ''https://s3.embassy.ebi.ac.uk/idr/zarr/v0.1/6001247.zarr/labels/0/''])"
    by (rule T [THEN conjunct2, THEN conjunct2, THEN conjunct2, THEN conjunct2, THEN conjunct1, rule_format, OF h_r2])
  have h_r3: "load_data_cell (demo_libs\<lparr>from_pretrained := (\<lambda>n. Inl (Exc ''ValueError''))\<rparr>) (PyInt 6001247) [] =
        (Inr (Eager (NdArray [1, 1, 2, 1, 2] [5, 6, 7, 8])), [PBarEnter,
         ZarrOpen ''https://s3.embassy.ebi.ac.uk/idr/zarr/v0.1/6001247.zarr/0/'',
         ZarrRead ''https://s3.embassy.ebi.ac.uk/idr/zarr/v0.1/6001247.zarr/0/'' [],
         PBarExit,
         Print (PShape [1, 1, 2, 1, 2])])
      \<and> load_labels_cell (demo_libs\<lparr>from_pretrained := (\<lambda>n. Inl (Exc ''ValueError''))\<rparr>) (PyInt 6001247) [PBarEnter,
         ZarrOpen ''https://s3.embassy.ebi.ac.uk/idr/zarr/v0.1/6001247.zarr/0/'',
         ZarrRead ''https://s3.embassy.ebi.ac.uk/idr/zarr/v0.1/6001247.zarr/0/'' [],
         PBarExit,
         Print (PShape [1, 1, 2, 1, 2])] =
        (Inr (Lazy (DaskArray ''https://s3.embassy.ebi.ac.uk/idr/zarr/v0.1/6001247.zarr/labels/0/'' [] [1, 1, 2, 1, 2])), [PBarEnter,
         ZarrOpen ''https://s3.embassy.ebi.ac.uk/idr/zarr/v0.1/6001247.zarr/0/'',
         ZarrRead ''https://s3.embassy.ebi.ac.uk/idr/zarr/v0.1/6001247.zarr/0/'' [],
         PBarExit,
         Print (PShape [1, 1, 2, 1, 2]),
         ZarrOpen ''https://s3.embassy.ebi.ac.uk/idr/zarr/v0.1/6001247.zarr/labels/0/'',
         Print (PShape [1, 1, 2, 1, 2])])
      \<and> from_pretrained (demo_libs\<lparr>from_pretrained := (\<lambda>n. Inl (Exc ''ValueError''))\<rparr>) ''2D_demo'' = Inl (Exc ''ValueError'')"
    by (simp add: load_binary_from_s3_eq load_labels_from_s3_eq load_data_cell_def load_labels_cell_def load_model_cell_def plot_fails_at_def py_defs demo_defs eval_defs )
  have r3: "run_notebook (demo_libs\<lparr>from_pretrained := (\<lambda>n. Inl (Exc ''ValueError''))\<rparr>) [] =
      (Inl (Exc ''ValueError''), [PBarEnter,
         ZarrOpen ''https://s3.embassy.ebi.ac.uk/idr/zarr/v0.1/6001247.zarr/0/'',
         ZarrRead ''https://s3.embassy.ebi.ac.uk/idr/zarr/v0.1/6001247.zarr/0/'' [],
         PBarExit,
         Print (PShape [1, 1, 2, 1, 2]),
         ZarrOpen ''https://s3.embassy.ebi.ac.uk/idr/zarr/v0.1/6001247.zarr/labels/0/'',
         Print (PShape [1, 1, 2, 1, 2])] @ [FromPretrained ''2D_demo''])"
    by (rule T [THEN conjunct2, THEN conjunct2, THEN conjunct2, THEN conjunct2, THEN conjunct2, THEN conjunct1, rule_format, OF h_r3])
  have h_r4: "load_data_cell (demo_libs\<lparr>normalize := (\<lambda>a. Inl (Exc ''MemoryError''))\<rparr>) (PyInt 6001247) [] =
        (Inr (Eager (NdArray [1, 1, 2, 1, 2] [5, 6, 7, 8])), [PBarEnter,
         ZarrOpen ''https://s3.embassy.ebi.ac.uk/idr/zarr/v0.1/6001247.zarr/0/'',
         ZarrRead ''https://s3.embassy.ebi.ac.uk/idr/zarr/v0.1/6001247.zarr/0/'' [],
         PBarExit,
         Print (PShape [1, 1, 2, 1, 2])])
      \<and> load_labels_cell (demo_libs\<lparr>normalize := (\<lambda>a. Inl (Exc ''MemoryError''))\<rparr>) (PyInt 6001247) [PBarEnter,
         ZarrOpen ''https://s3.embassy.ebi.ac.uk/idr/zarr/v0.1/6001247.zarr/0/'',
         ZarrRead ''https://s3.embassy.ebi.ac.uk/idr/zarr/v0.1/6001247.zarr/0/'' [],
         PBarExit,
         Print (PShape [1, 1, 2, 1, 2])] =
        (Inr (Lazy (DaskArray ''https://s3.embassy.ebi.ac.uk/idr/zarr/v0.1/6001247.zarr/labels/0/'' [] [1, 1, 2, 1, 2])), [PBarEnter,
         ZarrOpen ''https://s3.embassy.ebi.ac.uk/idr/zarr/v0.1/6001247.zarr/0/'',
         ZarrRead ''https://s3.embassy.ebi.ac.uk/idr/zarr/v0.1/6001247.zarr/0/'' [],
         PBarExit,
         Print (PShape [1, 1, 2, 1, 2]),
         ZarrOpen ''https://s3.embassy.ebi.ac.uk/idr/zarr/v0.1/6001247.zarr/labels/0/'',
         Print (PShape [1, 1, 2, 1, 2])])
      \<and> load_model_cell (demo_libs\<lparr>normalize := (\<lambda>a. Inl (Exc ''MemoryError''))\<rparr>) [PBarEnter,
         ZarrOpen ''https://s3.embassy.ebi.ac.uk/idr/zarr/v0.1/6001247.zarr/0/'',
         ZarrRead ''https://s3.embassy.ebi.ac.uk/idr/zarr/v0.1/6001247.zarr/0/'' [],
         PBarExit,
         Print (PShape [1, 1, 2, 1, 2]),
         ZarrOpen ''https://s3.embassy.ebi.ac.uk/idr/zarr/v0.1/6001247.zarr/labels/0/'',
         Print (PShape [1, 1, 2, 1, 2])] =
        (Inr demo_model, [PBarEnter,
         ZarrOpen ''https://s3.embassy.ebi.ac.uk/idr/zarr/v0.1/6001247.zarr/0/'',
         ZarrRead ''https://s3.embassy.ebi.ac.uk/idr/zarr/v0.1/6001247.zarr/0/'' [],
         PBarExit,
         Print (PShape [1, 1, 2, 1, 2]),
         ZarrOpen ''https://s3.embassy.ebi.ac.uk/idr/zarr/v0.1/6001247.zarr/labels/0/'',
         Print (PShape [1, 1, 2, 1, 2]),
         FromPretrained ''2D_demo''])
      \<and> predict_cell (demo_libs\<lparr>normalize := (\<lambda>a. Inl (Exc ''MemoryError''))\<rparr>) demo_model (Eager (NdArray [1, 1, 2, 1, 2] [5, 6, 7, 8])) [PBarEnter,
         ZarrOpen ''https://s3.embassy.ebi.ac.uk/idr/zarr/v0.1/6001247.zarr/0/'',
         ZarrRead ''https://s3.embassy.ebi.ac.uk/idr/zarr/v0.1/6001247.zarr/0/'' [],
         PBarExit,
         Print (PShape [1, 1, 2, 1, 2]),
         ZarrOpen ''https://s3.embassy.ebi.ac.uk/idr/zarr/v0.1/6001247.zarr/labels/0/'',
         Print (PShape [1, 1, 2, 1, 2]),
         FromPretrained ''2D_demo''] =
        (Inl (Exc ''MemoryError''), [PBarEnter,
         ZarrOpen ''https://s3.embassy.ebi.ac.uk/idr/zarr/v0.1/6001247.zarr/0/'',
         ZarrRead ''https://s3.embassy.ebi.ac.uk/idr/zarr/v0.1/6001247.zarr/0/'' [],
         PBarExit,
         Print (PShape [1, 1, 2, 1, 2]),
         ZarrOpen ''https://s3.embassy.ebi.ac.uk/idr/zarr/v0.1/6001247.zarr/labels/0/'',
         Print (PShape [1, 1, 2, 1, 2]),
         FromPretrained ''2D_demo'',
         Normalize (NdArray [2, 1, 2] [5, 6, 7, 8])])"
    by (simp add: load_binary_from_s3_eq load_labels_from_s3_eq load_data_cell_def load_labels_cell_def load_model_cell_def plot_fails_at_def py_defs demo_defs eval_defs predict_cell_def)
  have r4: "run_notebook (demo_libs\<lparr>normalize := (\<lambda>a. Inl (Exc ''MemoryError''))\<rparr>) [] =
      (Inl (Exc ''MemoryError''), [PBarEnter,
         ZarrOpen ''https://s3.embassy.ebi.ac.uk/idr/zarr/v0.1/6001247.zarr/0/'',
         ZarrRead ''https://s3.embassy.ebi.ac.uk/idr/zarr/v0.1/6001247.zarr/0/'' [],
         PBarExit,
         Print (PShape [1, 1, 2, 1, 2]),
         ZarrOpen ''https://s3.embassy.ebi.ac.uk/idr/zarr/v0.1/6001247.zarr/labels/0/'',
         Print (PShape [1, 1, 2, 1, 2]),
         FromPretrained ''2D_demo'',
         Normalize (NdArray [2, 1, 2] [5, 6, 7, 8])])"
    by (rule T [THEN conjunct2, THEN conjunct2, THEN conjunct2, THEN conjunct2, THEN conjunct2, THEN conjunct2, THEN conjunct1, rule_format, OF h_r4])
  have h_r5: "load_data_cell (demo_libs\<lparr>zarr_read := (\<lambda>u ix. Inr (NdArray [1, 1, 0, 1, 2] []))\<rparr>) (PyInt 6001247) [] =
        (Inr (Eager (NdArray [1, 1, 0, 1, 2] [])), [PBarEnter,
         ZarrOpen ''https://s3.embassy.ebi.ac.uk/idr/zarr/v0.1/6001247.zarr/0/'',
         ZarrRead ''https://s3.embassy.ebi.ac.uk/idr/zarr/v0.1/6001247.zarr/0/'' [],
         PBarExit,
         Print (PShape [1, 1, 0, 1, 2])])
      \<and> load_labels_cell (demo_libs\<lparr>zarr_read := (\<lambda>u ix. Inr (NdArray [1, 1, 0, 1, 2] []))\<rparr>) (PyInt 6001247) [PBarEnter,
         ZarrOpen ''https://s3.embassy.ebi.ac.uk/idr/zarr/v0.1/6001247.zarr/0/'',
         ZarrRead ''https://s3.embassy.ebi.ac.uk/idr/zarr/v0.1/6001247.zarr/0/'' [],
         PBarExit,
         Print (PShape [1, 1, 0, 1, 2])] =
        (Inr (Lazy (DaskArray ''https://s3.embassy.ebi.ac.uk/idr/zarr/v0.1/6001247.zarr/labels/0/'' [] [1, 1, 2, 1, 2])), [PBarEnter,
         ZarrOpen ''https://s3.embassy.ebi.ac.uk/idr/zarr/v0.1/6001247.zarr/0/'',
         ZarrRead ''https://s3.embassy.ebi.ac.uk/idr/zarr/v0.1/6001247.zarr/0/'' [],
         PBarExit,
         Print (PShape [1, 1, 0, 1, 2]),
         ZarrOpen ''https://s3.embassy.ebi.ac.uk/idr/zarr/v0.1/6001247.zarr/labels/0/'',
         Print (PShape [1, 1, 2, 1, 2])])
      \<and> load_model_cell (demo_libs\<lparr>zarr_read := (\<lambda>u ix. Inr (NdArray [1, 1, 0, 1, 2] []))\<rparr>) [PBarEnter,
         ZarrOpen ''https://s3.embassy.ebi.ac.uk/idr/zarr/v0.1/6001247.zarr/0/'',
         ZarrRead ''https://s3.embassy.ebi.ac.uk/idr/zarr/v0.1/6001247.zarr/0/'' [],
         PBarExit,
         Print (PShape [1, 1, 0, 1, 2]),
         ZarrOpen ''https://s3.embassy.ebi.ac.uk/idr/zarr/v0.1/6001247.zarr/labels/0/'',
         Print (PShape [1, 1, 2, 1, 2])] =
        (Inr demo_model, [PBarEnter,
         ZarrOpen ''https://s3.embassy.ebi.ac.uk/idr/zarr/v0.1/6001247.zarr/0/'',
         ZarrRead ''https://s3.embassy.ebi.ac.uk/idr/zarr/v0.1/6001247.zarr/0/'' [],
         PBarExit,
         Print (PShape [1, 1, 0, 1, 2]),
         ZarrOpen ''https://s3.embassy.ebi.ac.uk/idr/zarr/v0.1/6001247.zarr/labels/0/'',
         Print (PShape [1, 1, 2, 1, 2]),
         FromPretrained ''2D_demo''])
      \<and> predict_cell (demo_libs\<lparr>zarr_read := (\<lambda>u ix. Inr (NdArray [1, 1, 0, 1, 2] []))\<rparr>) demo_model (Eager (NdArray [1, 1, 0, 1, 2] [])) [PBarEnter,
         ZarrOpen ''https://s3.embassy.ebi.ac.uk/idr/zarr/v0.1/6001247.zarr/0/'',
         ZarrRead ''https://s3.embassy.ebi.ac.uk/idr/zarr/v0.1/6001247.zarr/0/'' [],
         PBarExit,
         Print (PShape [1, 1, 0, 1, 2]),
         ZarrOpen ''https://s3.embassy.ebi.ac.uk/idr/zarr/v0.1/6001247.zarr/labels/0/'',
         Print (PShape [1, 1, 2, 1, 2]),
         FromPretrained ''2D_demo''] =
        (Inr (NdArray [0, 1, 2] [], [], NdArray [0] []), [PBarEnter,
         ZarrOpen ''https://s3.embassy.ebi.ac.uk/idr/zarr/v0.1/6001247.zarr/0/'',
         ZarrRead ''https://s3.embassy.ebi.ac.uk/idr/zarr/v0.1/6001247.zarr/0/'' [],
         PBarExit,
         Print (PShape [1, 1, 0, 1, 2]),
         ZarrOpen ''https://s3.embassy.ebi.ac.uk/idr/zarr/v0.1/6001247.zarr/labels/0/'',
         Print (PShape [1, 1, 2, 1, 2]),
         FromPretrained ''2D_demo'',
         Normalize (NdArray [0, 1, 2] [])])
      \<and> compare_cell (demo_libs\<lparr>zarr_read := (\<lambda>u ix. Inr (NdArray [1, 1, 0, 1, 2] []))\<rparr>)
          \<lparr>image_id = PyInt 6001247, data = Eager (NdArray [1, 1, 0, 1, 2] []), labels = Lazy (DaskArray ''https://s3.embassy.ebi.ac.uk/idr/zarr/v0.1/6001247.zarr/labels/0/'' [] [1, 1, 2, 1, 2]),
           model_versatile = demo_model, img = NdArray [0, 1, 2] [], results = [],
           label_slices = NdArray [0] []\<rparr>
          [PBarEnter,
         ZarrOpen ''https://s3.embassy.ebi.ac.uk/idr/zarr/v0.1/6001247.zarr/0/'',
         ZarrRead ''https://s3.embassy.ebi.ac.uk/idr/zarr/v0.1/6001247.zarr/0/'' [],
         PBarExit,
         Print (PShape [1, 1, 0, 1, 2]),
         ZarrOpen ''https://s3.embassy.ebi.ac.uk/idr/zarr/v0.1/6001247.zarr/labels/0/'',
         Print (PShape [1, 1, 2, 1, 2]),
         FromPretrained ''2D_demo'',
         Normalize (NdArray [0, 1, 2] [])] =
        (Inl (Exc ''TraitError''), [PBarEnter,
         ZarrOpen ''https://s3.embassy.ebi.ac.uk/idr/zarr/v0.1/6001247.zarr/0/'',
         ZarrRead ''https://s3.embassy.ebi.ac.uk/idr/zarr/v0.1/6001247.zarr/0/'' [],
         PBarExit,
         Print (PShape [1, 1, 0, 1, 2]),
         ZarrOpen ''https://s3.embassy.ebi.ac.uk/idr/zarr/v0.1/6001247.zarr/labels/0/'',
         Print (PShape [1, 1, 2, 1, 2]),
         FromPretrained ''2D_demo'',
         Normalize (NdArray [0, 1, 2] [])])"
    by (simp add: load_binary_from_s3_eq load_labels_from_s3_eq load_data_cell_def load_labels_cell_def load_model_cell_def plot_fails_at_def py_defs demo_defs eval_defs predict_cell_def compare_cell_def)
  have r5: "run_notebook (demo_libs\<lparr>zarr_read := (\<lambda>u ix. Inr (NdArray [1, 1, 0, 1, 2] []))\<rparr>) [] =
      (Inl (Exc ''TraitError''), [PBarEnter,
         ZarrOpen ''https://s3.embassy.ebi.ac.uk/idr/zarr/v0.1/6001247.zarr/0/'',
         ZarrRead ''https://s3.embassy.ebi.ac.uk/idr/zarr/v0.1/6001247.zarr/0/'' [],
         PBarExit,
         Print (PShape [1, 1, 0, 1, 2]),
         ZarrOpen ''https://s3.embassy.ebi.ac.uk/idr/zarr/v0.1/6001247.zarr/labels/0/'',
         Print (PShape [1, 1, 2, 1, 2]),
         FromPretrained ''2D_demo'',
         Normalize (NdArray [0, 1, 2] [])])"
    by (rule T [THEN conjunct2, THEN conjunct2, THEN conjunct2, THEN conjunct2, THEN conjunct2, THEN conjunct2, THEN conjunct2, THEN conjunct1, rule_format, OF h_r5])
  have h_p1: "nd_getitem (NdArray [2, 2] [1, 2, 3, 4 :: nat]) [0, 0] 3 = Inl (Exc ''IndexError'')"
    by (simp add: load_binary_from_s3_eq load_labels_from_s3_eq load_data_cell_def load_labels_cell_def load_model_cell_def plot_fails_at_def py_defs demo_defs eval_defs )
  have p1: "predict_cell demo_libs demo_model (Eager (NdArray [2, 2] [1, 2, 3, 4])) [] =
      (Inl (Exc ''IndexError''), [])"
    by (rule T [THEN conjunct2, THEN conjunct2, THEN conjunct2, THEN conjunct2, THEN conjunct2, THEN conjunct2, THEN conjunct2, THEN conjunct2, THEN conjunct1, rule_format, OF h_p1])
  have h_p2: "nd_getitem (NdArray [1, 1, 2, 1, 2] [5, 6, 7, 8] :: nat ndarray) [0, 0] 3 = Inr (NdArray [2, 1, 2] [5, 6, 7, 8])
      \<and> normalize (demo_libs\<lparr>normalize := (\<lambda>a. Inl (Exc ''MemoryError''))\<rparr>) (NdArray [2, 1, 2] [5, 6, 7, 8]) = Inl (Exc ''MemoryError'')"
    by (simp add: load_binary_from_s3_eq load_labels_from_s3_eq load_data_cell_def load_labels_cell_def load_model_cell_def plot_fails_at_def py_defs demo_defs eval_defs )
  have p2: "predict_cell (demo_libs\<lparr>normalize := (\<lambda>a. Inl (Exc ''MemoryError''))\<rparr>) demo_model (Eager (NdArray [1, 1, 2, 1, 2] [5, 6, 7, 8])) [] =
      (Inl (Exc ''MemoryError''), [] @ [Normalize (NdArray [2, 1, 2] [5, 6, 7, 8])])"
    by (rule T [THEN conjunct2, THEN conjunct2, THEN conjunct2, THEN conjunct2, THEN conjunct2, THEN conjunct2, THEN conjunct2, THEN conjunct2, THEN conjunct2, THEN conjunct1, rule_format, OF h_p2])
  have h_p3: "nd_getitem (NdArray [1, 1, 2, 1, 2] [5, 6, 7, 8] :: nat ndarray) [0, 0] 3 = Inr (NdArray [2, 1, 2] [5, 6, 7, 8])
      \<and> normalize (demo_libs\<lparr>normalize := (\<lambda>a. Inr (NdArray [] [0]))\<rparr>) (NdArray [2, 1, 2] [5, 6, 7, 8]) = Inr (NdArray [] [0])
      \<and> nd_iter (NdArray [] [0 :: nat]) = Inl (Exc ''TypeError'')"
    by (simp add: load_binary_from_s3_eq load_labels_from_s3_eq load_data_cell_def load_labels_cell_def load_model_cell_def plot_fails_at_def py_defs demo_defs eval_defs )
  have p3: "predict_cell (demo_libs\<lparr>normalize := (\<lambda>a. Inr (NdArray [] [0]))\<rparr>) demo_model (Eager (NdArray [1, 1, 2, 1, 2] [5, 6, 7, 8])) [] =
      (Inl (Exc ''TypeError''), [] @ [Normalize (NdArray [2, 1, 2] [5, 6, 7, 8])])"
    by (rule T [THEN conjunct2, THEN conjunct2, THEN conjunct2, THEN conjunct2, THEN conjunct2, THEN conjunct2, THEN conjunct2, THEN conjunct2, THEN conjunct2, THEN conjunct2, THEN conjunct1, rule_format, OF h_p3])
  have h_p4: "nd_getitem (NdArray [1, 1, 2, 1, 2] [5, 6, 7, 8] :: nat ndarray) [0, 0] 3 = Inr (NdArray [2, 1, 2] [5, 6, 7, 8])
      \<and> normalize demo_libs (NdArray [2, 1, 2] [5, 6, 7, 8]) = Inr (NdArray [2, 1, 2] [5, 6, 7, 8])
      \<and> nd_iter (NdArray [2, 1, 2] [5, 6, 7, 8] :: nat ndarray) = Inr ([NdArray [1, 2] [5, 6]] @ NdArray [1, 2] [7, 8] # [])
      \<and> list_all2 (\<lambda>x r. \<exists>dt. (\<lambda>p. if elems p = [7, 8] then Inl (Exc ''ValueError'') else demo_model p) x = Inr (r, dt))
            [NdArray [1, 2] [5, 6]] [NdArray [1, 2] [1, 0]]
      \<and> (\<lambda>p. if elems p = [7, 8] then Inl (Exc ''ValueError'') else demo_model p) (NdArray [1, 2] [7, 8]) = Inl (Exc ''ValueError'')"
    by (simp add: load_binary_from_s3_eq load_labels_from_s3_eq load_data_cell_def load_labels_cell_def load_model_cell_def plot_fails_at_def py_defs demo_defs eval_defs )
  have p4: "predict_cell demo_libs (\<lambda>p. if elems p = [7, 8] then Inl (Exc ''ValueError'') else demo_model p)
        (Eager (NdArray [1, 1, 2, 1, 2] [5, 6, 7, 8])) [] =
      (Inl (Exc ''ValueError''),
       [] @ Normalize (NdArray [2, 1, 2] [5, 6, 7, 8]) # map PredictInstances [NdArray [1, 2] [5, 6]] @ [PredictInstances (NdArray [1, 2] [7, 8])])"
    by (rule T [THEN conjunct2, THEN conjunct2, THEN conjunct2, THEN conjunct2, THEN conjunct2, THEN conjunct2, THEN conjunct2, THEN conjunct2, THEN conjunct2, THEN conjunct2, THEN conjunct2, THEN conjunct1, rule_format, OF h_p4])
  have h_p5: "nd_getitem (NdArray [1, 1, 2, 1, 2] [5, 6, 7, 8] :: nat ndarray) [0, 0] 3 = Inr (NdArray [2, 1, 2] [5, 6, 7, 8])
      \<and> normalize demo_libs (NdArray [2, 1, 2] [5, 6, 7, 8]) = Inr (NdArray [2, 1, 2] [5, 6, 7, 8])
      \<and> nd_iter (NdArray [2, 1, 2] [5, 6, 7, 8] :: nat ndarray) = Inr [NdArray [1, 2] [5, 6], NdArray [1, 2] [7, 8]]
      \<and> list_all2 (\<lambda>x r. \<exists>dt. (\<lambda>p. Inr (NdArray [hd (elems p)] [], [])) x = Inr (r, dt))
            [NdArray [1, 2] [5, 6], NdArray [1, 2] [7, 8]] [NdArray [5] [], NdArray [7] []]
      \<and> np_array [NdArray [5] [], NdArray [7] [] :: nat ndarray] = Inl (Exc ''ValueError'')"
    by (simp add: load_binary_from_s3_eq load_labels_from_s3_eq load_data_cell_def load_labels_cell_def load_model_cell_def plot_fails_at_def py_defs demo_defs eval_defs )
  have p5: "predict_cell demo_libs (\<lambda>p. Inr (NdArray [hd (elems p)] [], []))
        (Eager (NdArray [1, 1, 2, 1, 2] [5, 6, 7, 8])) [] =
      (Inl (Exc ''ValueError''),
       [] @ Normalize (NdArray [2, 1, 2] [5, 6, 7, 8]) # map PredictInstances [NdArray [1, 2] [5, 6], NdArray [1, 2] [7, 8]])"
    by (rule T [THEN conjunct2, THEN conjunct2, THEN conjunct2, THEN conjunct2, THEN conjunct2, THEN conjunct2, THEN conjunct2, THEN conjunct2, THEN conjunct2, THEN conjunct2, THEN conjunct2, THEN conjunct2, THEN conjunct1, rule_format, OF h_p5])
  have h_w1: "shape_at (py_shape (data (demo_globals\<lparr>data := Eager (NdArray [2] [0, 0])\<rparr>))) 2 = Inl (Exc ''IndexError'')"
    by (simp add: load_binary_from_s3_eq load_labels_from_s3_eq load_data_cell_def load_labels_cell_def load_model_cell_def plot_fails_at_def py_defs demo_defs eval_defs )
  have w1: "compare_cell demo_libs (demo_globals\<lparr>data := Eager (NdArray [2] [0, 0])\<rparr>) [] =
      (Inl (Exc ''IndexError''), [])"
    by (rule T [THEN conjunct2, THEN conjunct2, THEN conjunct2, THEN conjunct2, THEN conjunct2, THEN conjunct2, THEN conjunct2, THEN conjunct2, THEN conjunct2, THEN conjunct2, THEN conjunct2, THEN conjunct2, THEN conjunct2, THEN conjunct1, rule_format, OF h_w1])
  have h_w2: "shape_at (py_shape (data (demo_globals\<lparr>data := Eager (NdArray [1, 1, 0, 1, 2] [])\<rparr>))) 2 = Inr 0
      \<and> IntSlider 0 0 (int 0 - 1) 1 = Inl (Exc ''TraitError'')"
    by (simp add: load_binary_from_s3_eq load_labels_from_s3_eq load_data_cell_def load_labels_cell_def load_model_cell_def plot_fails_at_def py_defs demo_defs eval_defs )
  have w2: "compare_cell demo_libs (demo_globals\<lparr>data := Eager (NdArray [1, 1, 0, 1, 2] [])\<rparr>) [] =
      (Inl (Exc ''TraitError''), [])"
    by (rule T [THEN conjunct2, THEN conjunct2, THEN conjunct2, THEN conjunct2, THEN conjunct2, THEN conjunct2, THEN conjunct2, THEN conjunct2, THEN conjunct2, THEN conjunct2, THEN conjunct2, THEN conjunct2, THEN conjunct2, THEN conjunct2, THEN conjunct1, rule_format, OF h_w2])
  have h_w3: "shape_at (py_shape (data demo_globals)) 2 = Inr 2 \<and> (0 :: nat) < 2
      \<and> update (plot_fails_at 1 (Exc ''RuntimeError'')) demo_globals 0 ([] @ [Interact 0 0 (int 2 - 1) 1]) =
          (Inl (Exc ''RuntimeError''), [Interact 0 0 1 1, NewFigure])"
    by (simp add: load_binary_from_s3_eq load_labels_from_s3_eq load_data_cell_def load_labels_cell_def load_model_cell_def plot_fails_at_def py_defs demo_defs eval_defs update_def)
  have w3: "compare_cell (plot_fails_at 1 (Exc ''RuntimeError'')) demo_globals [] =
      (case callback_error (plot_fails_at 1 (Exc ''RuntimeError'')) (Exc ''RuntimeError'') of
         None \<Rightarrow> (Inr \<lparr>s_value = 0, s_min = 0, s_max = int 2 - 1, s_step = 1\<rparr>, [Interact 0 0 1 1, NewFigure])
       | Some e' \<Rightarrow> (Inl e', [Interact 0 0 1 1, NewFigure]))"
    by (rule T [THEN conjunct2, THEN conjunct2, THEN conjunct2, THEN conjunct2, THEN conjunct2, THEN conjunct2, THEN conjunct2, THEN conjunct2, THEN conjunct2, THEN conjunct2, THEN conjunct2, THEN conjunct2, THEN conjunct2, THEN conjunct2, THEN conjunct2, rule_format, OF h_w3])
  have h_w4: "shape_at (py_shape (data demo_globals)) 2 = Inr 2 \<and> (0 :: nat) < 2
      \<and> update (plot_fails_at 1 (Exc ''RuntimeError'')\<lparr>callback_error := Some\<rparr>) demo_globals 0 ([] @ [Interact 0 0 (int 2 - 1) 1]) =
          (Inl (Exc ''RuntimeError''), [Interact 0 0 1 1, NewFigure])"
    by (simp add: load_binary_from_s3_eq load_labels_from_s3_eq load_data_cell_def load_labels_cell_def load_model_cell_def plot_fails_at_def py_defs demo_defs eval_defs update_def)
  have w4: "compare_cell (plot_fails_at 1 (Exc ''RuntimeError'')\<lparr>callback_error := Some\<rparr>) demo_globals [] =
      (case callback_error (plot_fails_at 1 (Exc ''RuntimeError'')\<lparr>callback_error := Some\<rparr>) (Exc ''RuntimeError'') of
         None \<Rightarrow> (Inr \<lparr>s_value = 0, s_min = 0, s_max = int 2 - 1, s_step = 1\<rparr>, [Interact 0 0 1 1, NewFigure])
       | Some e' \<Rightarrow> (Inl e', [Interact 0 0 1 1, NewFigure]))"
    by (rule T [THEN conjunct2, THEN conjunct2, THEN conjunct2, THEN conjunct2, THEN conjunct2, THEN conjunct2, THEN conjunct2, THEN conjunct2, THEN conjunct2, THEN conjunct2, THEN conjunct2, THEN conjunct2, THEN conjunct2, THEN conjunct2, THEN conjunct2, rule_format, OF h_w4])
  from h1 h2 h3 r1 r2 r3 r4 r5 p1 p2 p3 p4 p5 w1 w2 w3 w4 show ?thesis
    by (simp add: str_image_id plot_fails_at_def demo_libs_def)
qed

subsection \<open>The shapes of the three arrays\<close>



subsection \<open>The order of the steps\<close>

text \<open>
  C8. Every run that completes makes the same calls in the same order, each step once: the
  identifier is set to 6001247; the image is fetched from the address made with it (the
  store is opened and read in full under the progress bar, the shape printed); the label
  store is opened (shape printed; no plane of it is read yet); the model
  \<^verbatim>\<open>2D_demo\<close> is loaded; the image is normalised and the model called on one plane
  after the other; the slider and the callback are handed to \<^verbatim>\<open>interact\<close>, which
  draws the widget for the first time by calling the callback with the value 0: the rest
  of the trace is that of this call, and it is there that a label plane is first read.
\<close>

theorem notebook_linear_sequence:
  assumes "run_notebook L w = (Inr (g, s), w')"
  shows "\<exists>a sub planes n.
       image_id g = PyInt 6001247 \<and> data g = Eager a \<and> nd_getitem a [0, 0] 3 = Inr sub
     \<and> nd_iter (img g) = Inr planes \<and> shape_at (shape a) 2 = Inr n
     \<and> w' = snd (update L g 0
               (w @ [PBarEnter,
                  ZarrOpen ''https://s3.embassy.ebi.ac.uk/idr/zarr/v0.1/6001247.zarr/0/'',
                  ZarrRead ''https://s3.embassy.ebi.ac.uk/idr/zarr/v0.1/6001247.zarr/0/'' [],
                  PBarExit, Print (PShape (shape a)),
                  ZarrOpen ''https://s3.embassy.ebi.ac.uk/idr/zarr/v0.1/6001247.zarr/labels/0/'',
                  Print (PShape (py_shape (labels g))), FromPretrained ''2D_demo'', Normalize sub]
                @ map PredictInstances planes @ [Interact 0 0 (int n - 1) 1]))
     \<and> (\<exists>cb. w' = w @ [PBarEnter,
                  ZarrOpen ''https://s3.embassy.ebi.ac.uk/idr/zarr/v0.1/6001247.zarr/0/'',
                  ZarrRead ''https://s3.embassy.ebi.ac.uk/idr/zarr/v0.1/6001247.zarr/0/'' [],
                  PBarExit, Print (PShape (shape a)),
                  ZarrOpen ''https://s3.embassy.ebi.ac.uk/idr/zarr/v0.1/6001247.zarr/labels/0/'',
                  Print (PShape (py_shape (labels g))), FromPretrained ''2D_demo'', Normalize sub]
                @ map PredictInstances planes @ [Interact 0 0 (int n - 1) 1, NewFigure] @ cb)"
proof -
  from run_notebook_Inr [OF assms] obtain a lshp sub planes n where
    f: "image_id g = PyInt 6001247" "data g = Eager a"
       "labels g = Lazy (DaskArray ''https://s3.embassy.ebi.ac.uk/idr/zarr/v0.1/6001247.zarr/labels/0/'' [] lshp)"
       "nd_getitem a [0, 0] 3 = Inr sub" "nd_iter (img g) = Inr planes"
       "shape_at (shape a) 2 = Inr n"
       "w' = snd (update L g 0 (w @ [PBarEnter,
                  ZarrOpen ''https://s3.embassy.ebi.ac.uk/idr/zarr/v0.1/6001247.zarr/0/'',
                  ZarrRead ''https://s3.embassy.ebi.ac.uk/idr/zarr/v0.1/6001247.zarr/0/'' [],
                  PBarExit, Print (PShape (shape a)),
                  ZarrOpen ''https://s3.embassy.ebi.ac.uk/idr/zarr/v0.1/6001247.zarr/labels/0/'',
                  Print (PShape lshp), FromPretrained ''2D_demo'', Normalize sub]
              @ map PredictInstances planes @ [Interact 0 0 (int n - 1) 1]))"
    by blast
  have ls: "py_shape (labels g) = lshp" using f(3) by simp
  from f(7) have e1: "w' = snd (update L g 0
               (w @ [PBarEnter,
                  ZarrOpen ''https://s3.embassy.ebi.ac.uk/idr/zarr/v0.1/6001247.zarr/0/'',
                  ZarrRead ''https://s3.embassy.ebi.ac.uk/idr/zarr/v0.1/6001247.zarr/0/'' [],
                  PBarExit, Print (PShape (shape a)),
                  ZarrOpen ''https://s3.embassy.ebi.ac.uk/idr/zarr/v0.1/6001247.zarr/labels/0/'',
                  Print (PShape (py_shape (labels g))), FromPretrained ''2D_demo'', Normalize sub]
                @ map PredictInstances planes @ [Interact 0 0 (int n - 1) 1]))"
    unfolding ls .
  from update_begins [of L g 0] e1 obtain cb where
    "w' = (w @ [PBarEnter,
                  ZarrOpen ''https://s3.embassy.ebi.ac.uk/idr/zarr/v0.1/6001247.zarr/0/'',
                  ZarrRead ''https://s3.embassy.ebi.ac.uk/idr/zarr/v0.1/6001247.zarr/0/'' [],
                  PBarExit, Print (PShape (shape a)),
                  ZarrOpen ''https://s3.embassy.ebi.ac.uk/idr/zarr/v0.1/6001247.zarr/labels/0/'',
                  Print (PShape (py_shape (labels g))), FromPretrained ''2D_demo'', Normalize sub]
              @ map PredictInstances planes @ [Interact 0 0 (int n - 1) 1]) @ NewFigure # cb"
    by blast
  then have e2: "\<exists>cb. w' = w @ [PBarEnter,
                  ZarrOpen ''https://s3.embassy.ebi.ac.uk/idr/zarr/v0.1/6001247.zarr/0/'',
                  ZarrRead ''https://s3.embassy.ebi.ac.uk/idr/zarr/v0.1/6001247.zarr/0/'' [],
                  PBarExit, Print (PShape (shape a)),
                  ZarrOpen ''https://s3.embassy.ebi.ac.uk/idr/zarr/v0.1/6001247.zarr/labels/0/'',
                  Print (PShape (py_shape (labels g))), FromPretrained ''2D_demo'', Normalize sub]
                @ map PredictInstances planes @ [Interact 0 0 (int n - 1) 1, NewFigure] @ cb"
    by (intro exI [of _ cb]) simp
  show ?thesis
    apply (rule exI [of _ a], rule exI [of _ sub], rule exI [of _ planes], rule exI [of _ n])
    using f(1, 2, 4, 5, 6) e1 e2 by (intro conjI)
qed

theorem notebook_linear_sequence_witness:
  "run_notebook demo_libs [] =
    (Inr (demo_globals, \<lparr>s_value = 0, s_min = 0, s_max = 1, s_step = 1\<rparr>),
     [PBarEnter,
      ZarrOpen ''https://s3.embassy.ebi.ac.uk/idr/zarr/v0.1/6001247.zarr/0/'',
      ZarrRead ''https://s3.embassy.ebi.ac.uk/idr/zarr/v0.1/6001247.zarr/0/'' [],
      PBarExit, Print (PShape [1, 1, 2, 1, 2]),
      ZarrOpen ''https://s3.embassy.ebi.ac.uk/idr/zarr/v0.1/6001247.zarr/labels/0/'',
      Print (PShape [1, 1, 2, 1, 2]), FromPretrained ''2D_demo'',
      Normalize (NdArray [2, 1, 2] [5, 6, 7, 8]),
      PredictInstances (NdArray [1, 2] [5, 6]),
      PredictInstances (NdArray [1, 2] [7, 8]), Interact 0 0 1 1,
      NewFigure, Subplot 121, Imshow (NdArray [1, 2] [5, 6]) ''gray'',
      ZarrRead ''https://s3.embassy.ebi.ac.uk/idr/zarr/v0.1/6001247.zarr/labels/0/'' [0, 0, 0],
      Imshow (NdArray [1, 2] [0, 1]) ''jet'', Subplot 122,
      Imshow (NdArray [1, 2] [5, 6]) ''gray'', Imshow (NdArray [1, 2] [1, 0]) ''jet'',
      TightLayout, FlushEvents])
   \<and> snd (run_notebook demo_libs []) =
       snd (update demo_libs demo_globals 0
         [PBarEnter,
          ZarrOpen ''https://s3.embassy.ebi.ac.uk/idr/zarr/v0.1/6001247.zarr/0/'',
          ZarrRead ''https://s3.embassy.ebi.ac.uk/idr/zarr/v0.1/6001247.zarr/0/'' [],
          PBarExit, Print (PShape [1, 1, 2, 1, 2]),
          ZarrOpen ''https://s3.embassy.ebi.ac.uk/idr/zarr/v0.1/6001247.zarr/labels/0/'',
          Print (PShape [1, 1, 2, 1, 2]), FromPretrained ''2D_demo'',
          Normalize (NdArray [2, 1, 2] [5, 6, 7, 8]),
          PredictInstances (NdArray [1, 2] [5, 6]),
          PredictInstances (NdArray [1, 2] [7, 8]), Interact 0 0 1 1])"
proof -
  from notebook_linear_sequence [OF demo_run] obtain a sub planes n where
    f: "data demo_globals = Eager a" "nd_getitem a [0, 0] 3 = Inr sub"
       "nd_iter (img demo_globals) = Inr planes" "shape_at (shape a) 2 = Inr n"
       "snd (run_notebook demo_libs []) = snd (update demo_libs demo_globals 0
               ([] @ [PBarEnter,
                  ZarrOpen ''https://s3.embassy.ebi.ac.uk/idr/zarr/v0.1/6001247.zarr/0/'',
                  ZarrRead ''https://s3.embassy.ebi.ac.uk/idr/zarr/v0.1/6001247.zarr/0/'' [],
                  PBarExit, Print (PShape (shape a)),
                  ZarrOpen ''https://s3.embassy.ebi.ac.uk/idr/zarr/v0.1/6001247.zarr/labels/0/'',
                  Print (PShape (py_shape (labels demo_globals))), FromPretrained ''2D_demo'',
                  Normalize sub]
                @ map PredictInstances planes @ [Interact 0 0 (int n - 1) 1]))"
    unfolding demo_run snd_conv by blast
  from f(1) have a: "a = NdArray [1, 1, 2, 1, 2] [5, 6, 7, 8]" by (simp add: demo_globals_def)
  with f(2) have sub: "sub = NdArray [2, 1, 2] [5, 6, 7, 8]" by (simp add: eval_defs)
  from f(3) have planes: "planes = [NdArray [1, 2] [5, 6], NdArray [1, 2] [7, 8]]"
    by (simp add: demo_globals_def eval_defs)
  from f(4) a have n: "n = 2" by (simp add: eval_defs)
  from f(5) have "snd (run_notebook demo_libs []) =
       snd (update demo_libs demo_globals 0
         [PBarEnter,
          ZarrOpen ''https://s3.embassy.ebi.ac.uk/idr/zarr/v0.1/6001247.zarr/0/'',
          ZarrRead ''https://s3.embassy.ebi.ac.uk/idr/zarr/v0.1/6001247.zarr/0/'' [],
          PBarExit, Print (PShape [1, 1, 2, 1, 2]),
          ZarrOpen ''https://s3.embassy.ebi.ac.uk/idr/zarr/v0.1/6001247.zarr/labels/0/'',
          Print (PShape [1, 1, 2, 1, 2]), FromPretrained ''2D_demo'',
          Normalize (NdArray [2, 1, 2] [5, 6, 7, 8]),
          PredictInstances (NdArray [1, 2] [5, 6]),
          PredictInstances (NdArray [1, 2] [7, 8]), Interact 0 0 1 1])"
    unfolding a sub planes n by (simp add: demo_globals_def)
  with demo_run show ?thesis by (intro conjI)
qed

subsection \<open>The slider and the indices\<close>

text \<open>
  C9. In every run that completes, with a normalisation and a model that keep the shape of
  what they are given, the slider goes from 0 to \<^verbatim>\<open>data.shape[2] - 1\<close> in steps of 1,
  and for every value \<open>z\<close> it can take both \<^verbatim>\<open>data[0, 0, z, :, :]\<close> and
  \<^verbatim>\<open>label_slices[z, :, :]\<close> are within bounds: neither raises.
\<close>

theorem slider_indices_in_bounds:
  assumes "run_notebook L w = (Inr (g, s), w')"
    and "normalize_keeps_shape L" and "model_keeps_shape L"
    and "slider_value s z"
  shows "s_min s = 0 \<and> s_step s = 1
       \<and> (\<exists>n. shape_at (py_shape (data g)) 2 = Inr n \<and> s_max s = int n - 1)
       \<and> (\<exists>p. py_getitem (data g) [0, 0, z] 2 = Inr p)
       \<and> (\<exists>q. nd_getitem (label_slices g) [z] 2 = Inr q)"
proof -
  from run_shapes [OF assms(1-3)] obtain a n0 n1 n rest where
    f: "data g = Eager a" "shape a = n0 # n1 # n # rest" "0 < n0" "0 < n1" "2 \<le> length rest"
       "shape (label_slices g) = n # rest"
       "s = \<lparr>s_value = 0, s_min = 0, s_max = int n - 1, s_step = 1\<rparr>" by blast
  from assms(4) f(7) have z: "0 \<le> z" "z < int n" by (auto simp: slider_value_def)
  from nd_getitem_plane [OF f(2) f(3) f(4) z f(5)] f(1)
  have "\<exists>p. py_getitem (data g) [0, 0, z] 2 = Inr p" by auto
  moreover from nd_getitem_slice [OF f(6) z f(5)]
  have "\<exists>q. nd_getitem (label_slices g) [z] 2 = Inr q" by blast
  moreover from f have "shape_at (py_shape (data g)) 2 = Inr n" by (simp add: shape_at_def)
  ultimately show ?thesis using f(7) by simp
qed

theorem slider_indices_in_bounds_witness:
  "slider_value \<lparr>s_value = 0, s_min = 0, s_max = 1, s_step = 1\<rparr> 1
   \<and> normalize_keeps_shape demo_libs \<and> model_keeps_shape demo_libs
   \<and> py_getitem (data demo_globals) [0, 0, 1] 2 = Inr (Eager (NdArray [1, 2] [7, 8]))
   \<and> nd_getitem (label_slices demo_globals) [1] 2 = Inr (NdArray [1, 2] [1, 0])"
proof -
  have sv: "slider_value \<lparr>s_value = 0, s_min = 0, s_max = 1, s_step = 1\<rparr> 1"
    by (simp add: slider_value_def)
  from slider_indices_in_bounds [OF demo_run demo_keeps_shape sv]
  have "(\<exists>p. py_getitem (data demo_globals) [0, 0, 1] 2 = Inr p)
      \<and> (\<exists>q. nd_getitem (label_slices demo_globals) [1] 2 = Inr q)" by blast
  then have "py_getitem (data demo_globals) [0, 0, 1] 2 = Inr (Eager (NdArray [1, 2] [7, 8]))
      \<and> nd_getitem (label_slices demo_globals) [1] 2 = Inr (NdArray [1, 2] [1, 0])"
    by (auto simp: demo_defs eval_defs split: sum.splits)
  with sv demo_keeps_shape show ?thesis by blast
qed

subsection \<open>What the handler does not cover\<close>

text \<open>
  C10. Only the overlay of the curated label plane stands inside the \<^verbatim>\<open>try\<close>. For
  every index \<open>z\<close>, every other statement of the callback raises what it raises, at once
  and with nothing printed: the new figure, the first subplot, the index into the image
  and the drawing of the grey plane before the guarded statement; and, once the guarded
  statement is over (it completed, or its exception was caught), the second subplot, the
  second drawing of the grey plane, the index into the predicted labels, the drawing of
  the predicted label plane, the layout and the flush.
\<close>

theorem update_propagates_unguarded:
  "(plot_raises L w NewFigure = Some e
      \<longrightarrow> update L g z w = (Inl e, w @ [NewFigure]))
   \<and> (plots_ok L w [NewFigure] \<and> plot_raises L (w @ [NewFigure]) (Subplot 121) = Some e
      \<longrightarrow> update L g z w = (Inl e, w @ [NewFigure, Subplot 121]))
   \<and> (plots_ok L w [NewFigure, Subplot 121] \<and> py_getitem (data g) [0, 0, z] 2 = Inl e
      \<longrightarrow> update L g z w = (Inl e, w @ [NewFigure, Subplot 121]))
   \<and> (plots_ok L w [NewFigure, Subplot 121]
      \<and> py_getitem (data g) [0, 0, z] 2 = Inr (Eager p)
      \<and> plot_raises L (w @ [NewFigure, Subplot 121]) (Imshow p ''gray'') = Some e
      \<longrightarrow> update L g z w = (Inl e, w @ [NewFigure, Subplot 121, Imshow p ''gray'']))
   \<and> (plots_ok L w [NewFigure, Subplot 121, Imshow p ''gray'']
      \<and> py_getitem (data g) [0, 0, z] 2 = Inr (Eager p)
      \<and> try_except_Exception (overlay_labels L g z) (py_print (PInt z))
           (w @ [NewFigure, Subplot 121, Imshow p ''gray'']) = (Inr (), w1)
      \<longrightarrow>
        (plot_raises L w1 (Subplot 122) = Some e
           \<longrightarrow> update L g z w = (Inl e, w1 @ [Subplot 122]))
      \<and> (plots_ok L w1 [Subplot 122]
           \<and> plot_raises L (w1 @ [Subplot 122]) (Imshow p ''gray'') = Some e
           \<longrightarrow> update L g z w = (Inl e, w1 @ [Subplot 122, Imshow p ''gray'']))
      \<and> (plots_ok L w1 [Subplot 122, Imshow p ''gray'']
           \<and> nd_getitem (label_slices g) [z] 2 = Inl e
           \<longrightarrow> update L g z w = (Inl e, w1 @ [Subplot 122, Imshow p ''gray'']))
      \<and> (plots_ok L w1 [Subplot 122, Imshow p ''gray'']
           \<and> nd_getitem (label_slices g) [z] 2 = Inr q
           \<and> plot_raises L (w1 @ [Subplot 122, Imshow p ''gray'']) (Imshow q ''jet'') = Some e
           \<longrightarrow> update L g z w = (Inl e, w1 @ [Subplot 122, Imshow p ''gray'', Imshow q ''jet'']))
      \<and> (plots_ok L w1 [Subplot 122, Imshow p ''gray'', Imshow q ''jet'']
           \<and> nd_getitem (label_slices g) [z] 2 = Inr q
           \<and> plot_raises L (w1 @ [Subplot 122, Imshow p ''gray'', Imshow q ''jet'']) TightLayout
                = Some e
           \<longrightarrow> update L g z w =
                 (Inl e, w1 @ [Subplot 122, Imshow p ''gray'', Imshow q ''jet'', TightLayout]))
      \<and> (plots_ok L w1 [Subplot 122, Imshow p ''gray'', Imshow q ''jet'', TightLayout]
           \<and> nd_getitem (label_slices g) [z] 2 = Inr q
           \<and> plot_raises L (w1 @ [Subplot 122, Imshow p ''gray'', Imshow q ''jet'', TightLayout])
                FlushEvents = Some e
           \<longrightarrow> update L g z w =
                 (Inl e, w1 @ [Subplot 122, Imshow p ''gray'', Imshow q ''jet'', TightLayout,
                               FlushEvents])))"
  by (simp add: update_def py_defs)

theorem update_propagates_unguarded_witness:
  "update (plot_fails_at 0 (Exc ''RuntimeError'')) demo_globals 1 [] =
       (Inl (Exc ''RuntimeError''), [NewFigure])
   \<and> update (plot_fails_at 1 (Exc ''RuntimeError'')) demo_globals 1 [] =
       (Inl (Exc ''RuntimeError''), [NewFigure, Subplot 121])
   \<and> update demo_libs demo_globals 2 [] =
       (Inl (Exc ''IndexError''), [NewFigure, Subplot 121])
   \<and> update (plot_fails_at 2 (Exc ''RuntimeError'')) demo_globals 1 [] =
       (Inl (Exc ''RuntimeError''), [NewFigure, Subplot 121, Imshow (NdArray [1, 2] [7, 8]) ''gray''])
   \<and> update (plot_fails_at 5 (Exc ''RuntimeError'')) demo_globals 1 [] =
       (Inl (Exc ''RuntimeError''), [NewFigure, Subplot 121, Imshow (NdArray [1, 2] [7, 8]) ''gray'',
         ZarrRead ''https://s3.embassy.ebi.ac.uk/idr/zarr/v0.1/6001247.zarr/labels/0/'' [0, 0, 1],
         Print (PInt 1),
         Subplot 122])
   \<and> update (plot_fails_at 6 (Exc ''RuntimeError'')) demo_globals 1 [] =
       (Inl (Exc ''RuntimeError''), [NewFigure, Subplot 121, Imshow (NdArray [1, 2] [7, 8]) ''gray'',
         ZarrRead ''https://s3.embassy.ebi.ac.uk/idr/zarr/v0.1/6001247.zarr/labels/0/'' [0, 0, 1],
         Print (PInt 1),
         Subplot 122, Imshow (NdArray [1, 2] [7, 8]) ''gray''])
   \<and> update demo_libs (demo_globals\<lparr>label_slices := NdArray [1, 1, 2] [1, 0]\<rparr>) 1 [] =
       (Inl (Exc ''IndexError''), [NewFigure, Subplot 121, Imshow (NdArray [1, 2] [7, 8]) ''gray'',
         ZarrRead ''https://s3.embassy.ebi.ac.uk/idr/zarr/v0.1/6001247.zarr/labels/0/'' [0, 0, 1],
         Print (PInt 1),
         Subplot 122, Imshow (NdArray [1, 2] [7, 8]) ''gray''])
   \<and> update (plot_fails_at 7 (Exc ''RuntimeError'')) demo_globals 1 [] =
       (Inl (Exc ''RuntimeError''), [NewFigure, Subplot 121, Imshow (NdArray [1, 2] [7, 8]) ''gray'',
         ZarrRead ''https://s3.embassy.ebi.ac.uk/idr/zarr/v0.1/6001247.zarr/labels/0/'' [0, 0, 1],
         Print (PInt 1),
         Subplot 122, Imshow (NdArray [1, 2] [7, 8]) ''gray'', Imshow (NdArray [1, 2] [1, 0]) ''jet''])
   \<and> update (plot_fails_at 8 (Exc ''RuntimeError'')) demo_globals 1 [] =
       (Inl (Exc ''RuntimeError''), [NewFigure, Subplot 121, Imshow (NdArray [1, 2] [7, 8]) ''gray'',
         ZarrRead ''https://s3.embassy.ebi.ac.uk/idr/zarr/v0.1/6001247.zarr/labels/0/'' [0, 0, 1],
         Print (PInt 1),
         Subplot 122, Imshow (NdArray [1, 2] [7, 8]) ''gray'', Imshow (NdArray [1, 2] [1, 0]) ''jet'', TightLayout])
   \<and> update (plot_fails_at 9 (Exc ''RuntimeError'')) demo_globals 1 [] =
       (Inl (Exc ''RuntimeError''), [NewFigure, Subplot 121, Imshow (NdArray [1, 2] [7, 8]) ''gray'',
         ZarrRead ''https://s3.embassy.ebi.ac.uk/idr/zarr/v0.1/6001247.zarr/labels/0/'' [0, 0, 1],
         Print (PInt 1),
         Subplot 122, Imshow (NdArray [1, 2] [7, 8]) ''gray'', Imshow (NdArray [1, 2] [1, 0]) ''jet'', TightLayout,
          FlushEvents])"
proof -
  note T = update_propagates_unguarded
  have ha: "plot_raises (plot_fails_at 0 (Exc ''RuntimeError'')) [] NewFigure = Some (Exc ''RuntimeError'')"
    by (simp add: plot_fails_at_def overlay_labels_def try_except_Exception_def py_defs demo_defs eval_defs)
  have a: "update (plot_fails_at 0 (Exc ''RuntimeError'')) demo_globals 1 [] =
       (Inl (Exc ''RuntimeError''), [] @ [NewFigure])"
    by (rule T [THEN conjunct1, rule_format, OF ha])
  have hb: "plots_ok (plot_fails_at 1 (Exc ''RuntimeError'')) [] [NewFigure]
      \<and> plot_raises (plot_fails_at 1 (Exc ''RuntimeError'')) ([] @ [NewFigure]) (Subplot 121) = Some (Exc ''RuntimeError'')"
    by (simp add: plot_fails_at_def overlay_labels_def try_except_Exception_def py_defs demo_defs eval_defs)
  have b: "update (plot_fails_at 1 (Exc ''RuntimeError'')) demo_globals 1 [] =
       (Inl (Exc ''RuntimeError''), [] @ [NewFigure, Subplot 121])"
    by (rule T [THEN conjunct2, THEN conjunct1, rule_format, OF hb])
  have hc: "plots_ok demo_libs [] [NewFigure, Subplot 121]
      \<and> py_getitem (data demo_globals) [0, 0, 2] 2 = Inl (Exc ''IndexError'')"
    by (simp add: plot_fails_at_def overlay_labels_def try_except_Exception_def py_defs demo_defs eval_defs)
  have c: "update demo_libs demo_globals 2 [] =
       (Inl (Exc ''IndexError''), [] @ [NewFigure, Subplot 121])"
    by (rule T [THEN conjunct2, THEN conjunct2, THEN conjunct1, rule_format, OF hc])
  have hd: "plots_ok (plot_fails_at 2 (Exc ''RuntimeError'')) [] [NewFigure, Subplot 121]
      \<and> py_getitem (data demo_globals) [0, 0, 1] 2 = Inr (Eager (NdArray [1, 2] [7, 8]))
      \<and> plot_raises (plot_fails_at 2 (Exc ''RuntimeError'')) ([] @ [NewFigure, Subplot 121]) (Imshow (NdArray [1, 2] [7, 8]) ''gray'') = Some (Exc ''RuntimeError'')"
    by (simp add: plot_fails_at_def overlay_labels_def try_except_Exception_def py_defs demo_defs eval_defs)
  have d: "update (plot_fails_at 2 (Exc ''RuntimeError'')) demo_globals 1 [] =
       (Inl (Exc ''RuntimeError''), [] @ [NewFigure, Subplot 121, Imshow (NdArray [1, 2] [7, 8]) ''gray''])"
    by (rule T [THEN conjunct2, THEN conjunct2, THEN conjunct2, THEN conjunct1, rule_format,
          OF hd])
  have pe: "plots_ok (plot_fails_at 5 (Exc ''RuntimeError'')) [] [NewFigure, Subplot 121, Imshow (NdArray [1, 2] [7, 8]) ''gray'']
      \<and> py_getitem (data demo_globals) [0, 0, 1] 2 = Inr (Eager (NdArray [1, 2] [7, 8]))
      \<and> try_except_Exception (overlay_labels (plot_fails_at 5 (Exc ''RuntimeError'')) demo_globals 1) (py_print (PInt 1))
           ([] @ [NewFigure, Subplot 121, Imshow (NdArray [1, 2] [7, 8]) ''gray'']) =
          (Inr (), [NewFigure, Subplot 121, Imshow (NdArray [1, 2] [7, 8]) ''gray'',
         ZarrRead ''https://s3.embassy.ebi.ac.uk/idr/zarr/v0.1/6001247.zarr/labels/0/'' [0, 0, 1],
         Print (PInt 1)])"
    by (simp add: plot_fails_at_def overlay_labels_def try_except_Exception_def py_defs demo_defs eval_defs)
  have he: "plot_raises (plot_fails_at 5 (Exc ''RuntimeError'')) [NewFigure, Subplot 121, Imshow (NdArray [1, 2] [7, 8]) ''gray'',
         ZarrRead ''https://s3.embassy.ebi.ac.uk/idr/zarr/v0.1/6001247.zarr/labels/0/'' [0, 0, 1],
         Print (PInt 1)] (Subplot 122) = Some (Exc ''RuntimeError'')"
    by (simp add: plot_fails_at_def overlay_labels_def try_except_Exception_def py_defs demo_defs eval_defs)
  have e: "update (plot_fails_at 5 (Exc ''RuntimeError'')) demo_globals 1 [] =
       (Inl (Exc ''RuntimeError''), [NewFigure, Subplot 121, Imshow (NdArray [1, 2] [7, 8]) ''gray'',
         ZarrRead ''https://s3.embassy.ebi.ac.uk/idr/zarr/v0.1/6001247.zarr/labels/0/'' [0, 0, 1],
         Print (PInt 1)] @ [Subplot 122])"
    by (rule T [THEN conjunct2, THEN conjunct2, THEN conjunct2, THEN conjunct2, rule_format,
          OF pe, THEN conjunct1, rule_format, OF he])
  have pf: "plots_ok (plot_fails_at 6 (Exc ''RuntimeError'')) [] [NewFigure, Subplot 121, Imshow (NdArray [1, 2] [7, 8]) ''gray'']
      \<and> py_getitem (data demo_globals) [0, 0, 1] 2 = Inr (Eager (NdArray [1, 2] [7, 8]))
      \<and> try_except_Exception (overlay_labels (plot_fails_at 6 (Exc ''RuntimeError'')) demo_globals 1) (py_print (PInt 1))
           ([] @ [NewFigure, Subplot 121, Imshow (NdArray [1, 2] [7, 8]) ''gray'']) =
          (Inr (), [NewFigure, Subplot 121, Imshow (NdArray [1, 2] [7, 8]) ''gray'',
         ZarrRead ''https://s3.embassy.ebi.ac.uk/idr/zarr/v0.1/6001247.zarr/labels/0/'' [0, 0, 1],
         Print (PInt 1)])"
    by (simp add: plot_fails_at_def overlay_labels_def try_except_Exception_def py_defs demo_defs eval_defs)
  have hf: "plots_ok (plot_fails_at 6 (Exc ''RuntimeError'')) [NewFigure, Subplot 121, Imshow (NdArray [1, 2] [7, 8]) ''gray'',
         ZarrRead ''https://s3.embassy.ebi.ac.uk/idr/zarr/v0.1/6001247.zarr/labels/0/'' [0, 0, 1],
         Print (PInt 1)] [Subplot 122]
      \<and> plot_raises (plot_fails_at 6 (Exc ''RuntimeError'')) ([NewFigure, Subplot 121, Imshow (NdArray [1, 2] [7, 8]) ''gray'',
         ZarrRead ''https://s3.embassy.ebi.ac.uk/idr/zarr/v0.1/6001247.zarr/labels/0/'' [0, 0, 1],
         Print (PInt 1)] @ [Subplot 122]) (Imshow (NdArray [1, 2] [7, 8]) ''gray'') = Some (Exc ''RuntimeError'')"
    by (simp add: plot_fails_at_def overlay_labels_def try_except_Exception_def py_defs demo_defs eval_defs)
  have f: "update (plot_fails_at 6 (Exc ''RuntimeError'')) demo_globals 1 [] =
       (Inl (Exc ''RuntimeError''), [NewFigure, Subplot 121, Imshow (NdArray [1, 2] [7, 8]) ''gray'',
         ZarrRead ''https://s3.embassy.ebi.ac.uk/idr/zarr/v0.1/6001247.zarr/labels/0/'' [0, 0, 1],
         Print (PInt 1)] @ [Subplot 122, Imshow (NdArray [1, 2] [7, 8]) ''gray''])"
    by (rule T [THEN conjunct2, THEN conjunct2, THEN conjunct2, THEN conjunct2, rule_format,
          OF pf, THEN conjunct2, THEN conjunct1, rule_format, OF hf])
  have pg: "plots_ok demo_libs [] [NewFigure, Subplot 121, Imshow (NdArray [1, 2] [7, 8]) ''gray'']
      \<and> py_getitem (data (demo_globals\<lparr>label_slices := NdArray [1, 1, 2] [1, 0]\<rparr>)) [0, 0, 1] 2 = Inr (Eager (NdArray [1, 2] [7, 8]))
      \<and> try_except_Exception (overlay_labels demo_libs (demo_globals\<lparr>label_slices := NdArray [1, 1, 2] [1, 0]\<rparr>) 1) (py_print (PInt 1))
           ([] @ [NewFigure, Subplot 121, Imshow (NdArray [1, 2] [7, 8]) ''gray'']) =
          (Inr (), [NewFigure, Subplot 121, Imshow (NdArray [1, 2] [7, 8]) ''gray'',
         ZarrRead ''https://s3.embassy.ebi.ac.uk/idr/zarr/v0.1/6001247.zarr/labels/0/'' [0, 0, 1],
         Print (PInt 1)])"
    by (simp add: plot_fails_at_def overlay_labels_def try_except_Exception_def py_defs demo_defs eval_defs)
  have hg: "plots_ok demo_libs [NewFigure, Subplot 121, Imshow (NdArray [1, 2] [7, 8]) ''gray'',
         ZarrRead ''https://s3.embassy.ebi.ac.uk/idr/zarr/v0.1/6001247.zarr/labels/0/'' [0, 0, 1],
         Print (PInt 1)] [Subplot 122, Imshow (NdArray [1, 2] [7, 8]) ''gray'']
      \<and> nd_getitem (label_slices (demo_globals\<lparr>label_slices := NdArray [1, 1, 2] [1, 0]\<rparr>)) [1] 2 = Inl (Exc ''IndexError'')"
    by (simp add: plot_fails_at_def overlay_labels_def try_except_Exception_def py_defs demo_defs eval_defs)
  have g: "update demo_libs (demo_globals\<lparr>label_slices := NdArray [1, 1, 2] [1, 0]\<rparr>) 1 [] =
       (Inl (Exc ''IndexError''), [NewFigure, Subplot 121, Imshow (NdArray [1, 2] [7, 8]) ''gray'',
         ZarrRead ''https://s3.embassy.ebi.ac.uk/idr/zarr/v0.1/6001247.zarr/labels/0/'' [0, 0, 1],
         Print (PInt 1)] @ [Subplot 122, Imshow (NdArray [1, 2] [7, 8]) ''gray''])"
    by (rule T [THEN conjunct2, THEN conjunct2, THEN conjunct2, THEN conjunct2, rule_format,
          OF pg, THEN conjunct2, THEN conjunct2, THEN conjunct1, rule_format, OF hg])
  have ph: "plots_ok (plot_fails_at 7 (Exc ''RuntimeError'')) [] [NewFigure, Subplot 121, Imshow (NdArray [1, 2] [7, 8]) ''gray'']
      \<and> py_getitem (data demo_globals) [0, 0, 1] 2 = Inr (Eager (NdArray [1, 2] [7, 8]))
      \<and> try_except_Exception (overlay_labels (plot_fails_at 7 (Exc ''RuntimeError'')) demo_globals 1) (py_print (PInt 1))
           ([] @ [NewFigure, Subplot 121, Imshow (NdArray [1, 2] [7, 8]) ''gray'']) =
          (Inr (), [NewFigure, Subplot 121, Imshow (NdArray [1, 2] [7, 8]) ''gray'',
         ZarrRead ''https://s3.embassy.ebi.ac.uk/idr/zarr/v0.1/6001247.zarr/labels/0/'' [0, 0, 1],
         Print (PInt 1)])"
    by (simp add: plot_fails_at_def overlay_labels_def try_except_Exception_def py_defs demo_defs eval_defs)
  have hh: "plots_ok (plot_fails_at 7 (Exc ''RuntimeError'')) [NewFigure, Subplot 121, Imshow (NdArray [1, 2] [7, 8]) ''gray'',
         ZarrRead ''https://s3.embassy.ebi.ac.uk/idr/zarr/v0.1/6001247.zarr/labels/0/'' [0, 0, 1],
         Print (PInt 1)] [Subplot 122, Imshow (NdArray [1, 2] [7, 8]) ''gray'']
      \<and> nd_getitem (label_slices demo_globals) [1] 2 = Inr (NdArray [1, 2] [1, 0])
      \<and> plot_raises (plot_fails_at 7 (Exc ''RuntimeError'')) ([NewFigure, Subplot 121, Imshow (NdArray [1, 2] [7, 8]) ''gray'',
         ZarrRead ''https://s3.embassy.ebi.ac.uk/idr/zarr/v0.1/6001247.zarr/labels/0/'' [0, 0, 1],
         Print (PInt 1)] @ [Subplot 122, Imshow (NdArray [1, 2] [7, 8]) ''gray'']) (Imshow (NdArray [1, 2] [1, 0]) ''jet'') = Some (Exc ''RuntimeError'')"
    by (simp add: plot_fails_at_def overlay_labels_def try_except_Exception_def py_defs demo_defs eval_defs)
  have h: "update (plot_fails_at 7 (Exc ''RuntimeError'')) demo_globals 1 [] =
       (Inl (Exc ''RuntimeError''), [NewFigure, Subplot 121, Imshow (NdArray [1, 2] [7, 8]) ''gray'',
         ZarrRead ''https://s3.embassy.ebi.ac.uk/idr/zarr/v0.1/6001247.zarr/labels/0/'' [0, 0, 1],
         Print (PInt 1)] @ [Subplot 122, Imshow (NdArray [1, 2] [7, 8]) ''gray'', Imshow (NdArray [1, 2] [1, 0]) ''jet''])"
    by (rule T [THEN conjunct2, THEN conjunct2, THEN conjunct2, THEN conjunct2, rule_format,
          OF ph, THEN conjunct2, THEN conjunct2, THEN conjunct2, THEN conjunct1, rule_format, OF hh])
  have pi: "plots_ok (plot_fails_at 8 (Exc ''RuntimeError'')) [] [NewFigure, Subplot 121, Imshow (NdArray [1, 2] [7, 8]) ''gray'']
      \<and> py_getitem (data demo_globals) [0, 0, 1] 2 = Inr (Eager (NdArray [1, 2] [7, 8]))
      \<and> try_except_Exception (overlay_labels (plot_fails_at 8 (Exc ''RuntimeError'')) demo_globals 1) (py_print (PInt 1))
           ([] @ [NewFigure, Subplot 121, Imshow (NdArray [1, 2] [7, 8]) ''gray'']) =
          (Inr (), [NewFigure, Subplot 121, Imshow (NdArray [1, 2] [7, 8]) ''gray'',
         ZarrRead ''https://s3.embassy.ebi.ac.uk/idr/zarr/v0.1/6001247.zarr/labels/0/'' [0, 0, 1],
         Print (PInt 1)])"
    by (simp add: plot_fails_at_def overlay_labels_def try_except_Exception_def py_defs demo_defs eval_defs)
  have hi: "plots_ok (plot_fails_at 8 (Exc ''RuntimeError'')) [NewFigure, Subplot 121, Imshow (NdArray [1, 2] [7, 8]) ''gray'',
         ZarrRead ''https://s3.embassy.ebi.ac.uk/idr/zarr/v0.1/6001247.zarr/labels/0/'' [0, 0, 1],
         Print (PInt 1)] [Subplot 122, Imshow (NdArray [1, 2] [7, 8]) ''gray'', Imshow (NdArray [1, 2] [1, 0]) ''jet'']
      \<and> nd_getitem (label_slices demo_globals) [1] 2 = Inr (NdArray [1, 2] [1, 0])
      \<and> plot_raises (plot_fails_at 8 (Exc ''RuntimeError'')) ([NewFigure, Subplot 121, Imshow (NdArray [1, 2] [7, 8]) ''gray'',
         ZarrRead ''https://s3.embassy.ebi.ac.uk/idr/zarr/v0.1/6001247.zarr/labels/0/'' [0, 0, 1],
         Print (PInt 1)] @ [Subplot 122, Imshow (NdArray [1, 2] [7, 8]) ''gray'', Imshow (NdArray [1, 2] [1, 0]) ''jet'']) TightLayout = Some (Exc ''RuntimeError'')"
    by (simp add: plot_fails_at_def overlay_labels_def try_except_Exception_def py_defs demo_defs eval_defs)
  have i: "update (plot_fails_at 8 (Exc ''RuntimeError'')) demo_globals 1 [] =
       (Inl (Exc ''RuntimeError''), [NewFigure, Subplot 121, Imshow (NdArray [1, 2] [7, 8]) ''gray'',
         ZarrRead ''https://s3.embassy.ebi.ac.uk/idr/zarr/v0.1/6001247.zarr/labels/0/'' [0, 0, 1],
         Print (PInt 1)] @ [Subplot 122, Imshow (NdArray [1, 2] [7, 8]) ''gray'', Imshow (NdArray [1, 2] [1, 0]) ''jet'', TightLayout])"
    by (rule T [THEN conjunct2, THEN conjunct2, THEN conjunct2, THEN conjunct2, rule_format,
          OF pi, THEN conjunct2, THEN conjunct2, THEN conjunct2, THEN conjunct2, THEN conjunct1, rule_format, OF hi])
  have pj: "plots_ok (plot_fails_at 9 (Exc ''RuntimeError'')) [] [NewFigure, Subplot 121, Imshow (NdArray [1, 2] [7, 8]) ''gray'']
      \<and> py_getitem (data demo_globals) [0, 0, 1] 2 = Inr (Eager (NdArray [1, 2] [7, 8]))
      \<and> try_except_Exception (overlay_labels (plot_fails_at 9 (Exc ''RuntimeError'')) demo_globals 1) (py_print (PInt 1))
           ([] @ [NewFigure, Subplot 121, Imshow (NdArray [1, 2] [7, 8]) ''gray'']) =
          (Inr (), [NewFigure, Subplot 121, Imshow (NdArray [1, 2] [7, 8]) ''gray'',
         ZarrRead ''https://s3.embassy.ebi.ac.uk/idr/zarr/v0.1/6001247.zarr/labels/0/'' [0, 0, 1],
         Print (PInt 1)])"
    by (simp add: plot_fails_at_def overlay_labels_def try_except_Exception_def py_defs demo_defs eval_defs)
  have hj: "plots_ok (plot_fails_at 9 (Exc ''RuntimeError'')) [NewFigure, Subplot 121, Imshow (NdArray [1, 2] [7, 8]) ''gray'',
         ZarrRead ''https://s3.embassy.ebi.ac.uk/idr/zarr/v0.1/6001247.zarr/labels/0/'' [0, 0, 1],
         Print (PInt 1)] [Subplot 122, Imshow (NdArray [1, 2] [7, 8]) ''gray'', Imshow (NdArray [1, 2] [1, 0]) ''jet'', TightLayout]
      \<and> nd_getitem (label_slices demo_globals) [1] 2 = Inr (NdArray [1, 2] [1, 0])
      \<and> plot_raises (plot_fails_at 9 (Exc ''RuntimeError'')) ([NewFigure, Subplot 121, Imshow (NdArray [1, 2] [7, 8]) ''gray'',
         ZarrRead ''https://s3.embassy.ebi.ac.uk/idr/zarr/v0.1/6001247.zarr/labels/0/'' [0, 0, 1],
         Print (PInt 1)] @ [Subplot 122, Imshow (NdArray [1, 2] [7, 8]) ''gray'', Imshow (NdArray [1, 2] [1, 0]) ''jet'', TightLayout]) FlushEvents = Some (Exc ''RuntimeError'')"
    by (simp add: plot_fails_at_def overlay_labels_def try_except_Exception_def py_defs demo_defs eval_defs)
  have j: "update (plot_fails_at 9 (Exc ''RuntimeError'')) demo_globals 1 [] =
       (Inl (Exc ''RuntimeError''), [NewFigure, Subplot 121, Imshow (NdArray [1, 2] [7, 8]) ''gray'',
         ZarrRead ''https://s3.embassy.ebi.ac.uk/idr/zarr/v0.1/6001247.zarr/labels/0/'' [0, 0, 1],
         Print (PInt 1)] @ [Subplot 122, Imshow (NdArray [1, 2] [7, 8]) ''gray'', Imshow (NdArray [1, 2] [1, 0]) ''jet'', TightLayout,
          FlushEvents])"
    by (rule T [THEN conjunct2, THEN conjunct2, THEN conjunct2, THEN conjunct2, rule_format,
          OF pj, THEN conjunct2, THEN conjunct2, THEN conjunct2, THEN conjunct2, THEN conjunct2, rule_format, OF hj])
  from a b c d e f g h i j show ?thesis by simp
qed

end
